theory Spec2Isabelle
  imports Main "HOL-Library.List_Lexorder" "HOL-Library.Char_ord"
begin

section \<open>The streak engine of DragonList.tsx\<close>

text \<open>
  A shallow embedding of the computation in \<^verbatim>\<open>src/components/DragonList.tsx\<close>: the
  \<^verbatim>\<open>useMemo\<close> block that turns blocks and rules into streak observations, the tracking
  effect that folds the observations into the record list, and the clear handler.

  JavaScript numbers are modelled as \<^typ>\<open>int\<close>: heights, intervals, offsets and counts
  are integers well inside the range in which double arithmetic is exact, and the
  quotient of two such integers rounds to the same floor as the exact quotient.
  A property that is absent from an object reads as \<^verbatim>\<open>undefined\<close>; such a property is
  an \<^typ>\<open>int option\<close> with \<^term>\<open>None\<close> for \<^verbatim>\<open>undefined\<close>.
\<close>

subsection \<open>Data (src/types.ts and the interfaces of DragonList.tsx)\<close>

datatype BlockType = ODD | EVEN

datatype SizeType = BIG | SMALL

record BlockData =
  height :: int
  hash :: string
  resultValue :: int
  btype :: BlockType
  sizeType :: SizeType
  timestamp :: string

text \<open>
  A rule object as the engine reads it. \<^verbatim>\<open>IntervalRule\<close> declares \<^verbatim>\<open>id\<close>, \<^verbatim>\<open>label\<close>,
  \<^verbatim>\<open>value\<close>, \<^verbatim>\<open>startBlock\<close>, \<^verbatim>\<open>trendRows\<close> and \<^verbatim>\<open>beadRows\<close>; the engine also reads
  \<^verbatim>\<open>rule.dragonThreshold\<close>, which the interface does not declare. The three properties the
  engine reads through \<^verbatim>\<open>||\<close> are optional here, so that a configuration that omits one
  can be written down.
\<close>

record IntervalRule =
  rule_id :: string
  label :: string
  rule_value :: int
  startBlock :: "int option"
  trendRows :: int
  beadRows :: "int option"
  dragonThreshold :: "int option"

text \<open>An object that has exactly the declared properties of \<^verbatim>\<open>IntervalRule\<close>.\<close>

definition well_typed_rule :: "IntervalRule \<Rightarrow> bool" where
  "well_typed_rule rule =
     (startBlock rule \<noteq> None \<and> beadRows rule \<noteq> None \<and> dragonThreshold rule = None)"

subsection \<open>JavaScript operators on integers\<close>

text \<open>\<^verbatim>\<open>x || d\<close> on a number: \<^verbatim>\<open>undefined\<close> and 0 are falsy.\<close>

fun js_or :: "int option \<Rightarrow> int \<Rightarrow> int" where
  "js_or None d = d"
| "js_or (Some v) d = (if v = 0 then d else v)"

text \<open>
  \<^verbatim>\<open>a % b\<close>: the remainder takes the sign of the dividend; \<^verbatim>\<open>NaN\<close> (here \<^term>\<open>None\<close>)
  when the divisor is 0. A zero remainder of a negative dividend is \<^verbatim>\<open>-0\<close>, and
  \<^verbatim>\<open>-0 === 0\<close> holds, as it does for the integer 0 here.
\<close>

definition js_rem :: "int \<Rightarrow> int \<Rightarrow> int option" where
  "js_rem a b = (if b = 0 then None else Some (sgn a * (\<bar>a\<bar> mod \<bar>b\<bar>)))"

text \<open>
  \<^verbatim>\<open>Math.floor(a / b)\<close>: the floor of the exact quotient; for \<^verbatim>\<open>b = 0\<close> the quotient is
  infinite or \<^verbatim>\<open>NaN\<close> and so is its floor (here \<^term>\<open>None\<close>).
\<close>

definition js_floor_div :: "int \<Rightarrow> int \<Rightarrow> int option" where
  "js_floor_div a b = (if b = 0 then None else Some (a div b))"

subsection \<open>The per-rule constants and the alignment filter\<close>

definition epoch :: "IntervalRule \<Rightarrow> int" where
  "epoch rule = js_or (startBlock rule) 0"

definition interval :: "IntervalRule \<Rightarrow> int" where
  "interval rule = rule_value rule"

definition rows :: "IntervalRule \<Rightarrow> int" where
  "rows rule = js_or (beadRows rule) 6"

definition threshold :: "IntervalRule \<Rightarrow> int" where
  "threshold rule = js_or (dragonThreshold rule) 3"

definition checkAlignment :: "IntervalRule \<Rightarrow> int \<Rightarrow> bool" where
  "checkAlignment rule h =
     (if interval rule \<le> 1 then True
      else if epoch rule > 0
        then h \<ge> epoch rule \<and> js_rem (h - epoch rule) (interval rule) = Some 0
      else js_rem h (interval rule) = Some 0)"

text \<open>
  \<^verbatim>\<open>allBlocks.filter(b => checkAlignment(b.height)).sort((a, b) => b.height - a.height)\<close>.
  The sort of an array is stable; \<^const>\<open>sort_key\<close> is the stable insertion sort, and
  descending height is ascending negated height.
\<close>

definition filtered :: "BlockData list \<Rightarrow> IntervalRule \<Rightarrow> BlockData list" where
  "filtered allBlocks rule =
     sort_key (\<lambda>b. - height b) (filter (\<lambda>b. checkAlignment rule (height b)) allBlocks)"

subsection \<open>Streaks\<close>

text \<open>
  \<^verbatim>\<open>rawType\<close> of an observation is one of the four strings \<^verbatim>\<open>'ODD'\<close>, \<^verbatim>\<open>'EVEN'\<close>,
  \<^verbatim>\<open>'BIG'\<close>, \<^verbatim>\<open>'SMALL'\<close>: a parity class or a size class.
\<close>

datatype RawType = OfType BlockType | OfSize SizeType

text \<open>The key of \<^verbatim>\<open>calculateStreak\<close>: \<^verbatim>\<open>'type' | 'sizeType'\<close>, and \<^verbatim>\<open>b[key]\<close>.\<close>

datatype StreakKey = Key_type | Key_sizeType

fun readKey :: "StreakKey \<Rightarrow> BlockData \<Rightarrow> RawType" where
  "readKey Key_type b = OfType (btype b)"
| "readKey Key_sizeType b = OfSize (sizeType b)"

record Streak =
  s_value :: RawType
  s_count :: int

text \<open>
  The loop \<^verbatim>\<open>for (const b of xs) { if (b[key] === firstVal) count++; else break; }\<close>,
  with the counter as an accumulator.
\<close>

fun streakLoop :: "StreakKey \<Rightarrow> RawType \<Rightarrow> BlockData list \<Rightarrow> int \<Rightarrow> int" where
  "streakLoop key firstVal [] count = count"
| "streakLoop key firstVal (b # bs) count =
     (if readKey key b = firstVal then streakLoop key firstVal bs (count + 1) else count)"

text \<open>
  \<^verbatim>\<open>calculateStreak\<close> reads \<^verbatim>\<open>filtered[0][key]\<close> first; on an empty list that is a
  property of \<^verbatim>\<open>undefined\<close> and throws (\<^term>\<open>None\<close>).
\<close>

definition calculateStreak :: "StreakKey \<Rightarrow> BlockData list \<Rightarrow> Streak option" where
  "calculateStreak key flt =
     (case flt of
        [] \<Rightarrow> None
      | b0 # _ \<Rightarrow>
          Some \<lparr>s_value = readKey key b0, s_count = streakLoop key (readKey key b0) flt 0\<rparr>)"

text \<open>\<^verbatim>\<open>calcRowStreak\<close> is the same code over \<^verbatim>\<open>rowItems\<close>.\<close>

definition calcRowStreak :: "StreakKey \<Rightarrow> BlockData list \<Rightarrow> Streak option" where
  "calcRowStreak key items =
     (case items of
        [] \<Rightarrow> None
      | b0 # _ \<Rightarrow>
          Some \<lparr>s_value = readKey key b0, s_count = streakLoop key (readKey key b0) items 0\<rparr>)"

subsection \<open>Observations\<close>

datatype DType = T_parity | T_size

datatype Mode = M_trend | M_bead

record DragonInfo =
  d_ruleId :: string
  d_ruleName :: string
  d_type :: DType
  d_mode :: Mode
  d_value :: string
  d_rawType :: RawType
  d_count :: int
  d_color :: string
  d_threshold :: int
  d_nextHeight :: int
  d_rowId :: "int option"

datatype DragonFilter = Filter_ALL | Only RawType

text \<open>
  \<^verbatim>\<open>FollowedPattern\<close> is imported from the types module, which does not declare it in
  this repository; its fields are the ones the component reads and writes.
\<close>

record FollowedPattern =
  fp_ruleId :: string
  fp_type :: DType
  fp_mode :: Mode
  fp_rowId :: "int option"

text \<open>The display label: one CJK glyph, written as its UTF-8 bytes.\<close>

definition valueLabel :: "DType \<Rightarrow> RawType \<Rightarrow> string" where
  "valueLabel ty v =
     (if ty = T_parity
      then (if v = OfType ODD then [CHR 0xE5, CHR 0x8D, CHR 0x95]
            else [CHR 0xE5, CHR 0x8F, CHR 0x8C])
      else (if v = OfSize BIG then [CHR 0xE5, CHR 0xA4, CHR 0xA7]
            else [CHR 0xE5, CHR 0xB0, CHR 0x8F]))"

definition colorOf :: "DType \<Rightarrow> RawType \<Rightarrow> string" where
  "colorOf ty v =
     (if v = OfType ODD \<or> v = OfSize BIG
      then (if ty = T_parity then ''var(--color-odd)'' else ''var(--color-big)'')
      else (if ty = T_parity then ''var(--color-even)'' else ''var(--color-small)''))"

definition matchesFilter :: "DragonFilter \<Rightarrow> DragonInfo \<Rightarrow> bool" where
  "matchesFilter activeFilter info = (activeFilter = Filter_ALL \<or> Only (d_rawType info) = activeFilter)"

record Results =
  trendResults :: "DragonInfo list"
  beadResults :: "DragonInfo list"
  watchResults :: "DragonInfo list"

text \<open>The \<^verbatim>\<open>info\<close> object literal of \<^verbatim>\<open>addTrendDragon\<close>.\<close>

definition trendInfo :: "IntervalRule \<Rightarrow> int \<Rightarrow> DType \<Rightarrow> Streak \<Rightarrow> DragonInfo" where
  "trendInfo rule nextHeight ty streak =
     \<lparr>d_ruleId = rule_id rule, d_ruleName = label rule, d_type = ty, d_mode = M_trend,
      d_value = valueLabel ty (s_value streak), d_rawType = s_value streak,
      d_count = s_count streak, d_color = colorOf ty (s_value streak),
      d_threshold = threshold rule, d_nextHeight = nextHeight, d_rowId = None\<rparr>"

text \<open>
  \<^verbatim>\<open>followedPatterns.find(...)\<close> returns the pattern found or \<^verbatim>\<open>undefined\<close>; a pattern
  is an object and so truthy.
\<close>

definition addTrendDragon ::
  "DragonFilter \<Rightarrow> FollowedPattern list \<Rightarrow> IntervalRule \<Rightarrow> int \<Rightarrow> DType \<Rightarrow> Streak
     \<Rightarrow> Results \<Rightarrow> Results" where
  "addTrendDragon activeFilter followedPatterns rule nextHeight ty streak res =
     (let info = trendInfo rule nextHeight ty streak;
          matches = matchesFilter activeFilter info;
          res1 = (if s_count streak \<ge> threshold rule \<and> matches
                  then res\<lparr>trendResults := trendResults res @ [info]\<rparr> else res);
          isFollowed = find (\<lambda>fp. fp_ruleId fp = rule_id rule \<and> fp_type fp = ty
                                   \<and> fp_mode fp = M_trend) followedPatterns
      in if isFollowed \<noteq> None \<and> matches
         then res1\<lparr>watchResults := watchResults res1 @ [info]\<rparr> else res1)"

subsection \<open>Rows\<close>

text \<open>
  The predicate of \<^verbatim>\<open>rowItems\<close>:
  \<^verbatim>\<open>Math.floor((b.height - epoch) / interval) % rows === r\<close>.
\<close>

definition inRow :: "IntervalRule \<Rightarrow> int \<Rightarrow> BlockData \<Rightarrow> bool" where
  "inRow rule r b =
     (case js_floor_div (height b - epoch rule) (interval rule) of
        None \<Rightarrow> False
      | Some logicalIdx \<Rightarrow> js_rem logicalIdx (rows rule) = Some r)"

definition rowItems :: "IntervalRule \<Rightarrow> BlockData list \<Rightarrow> int \<Rightarrow> BlockData list" where
  "rowItems rule flt r = filter (inRow rule r) flt"

text \<open>The \<^verbatim>\<open>info\<close> object literal of \<^verbatim>\<open>addBeadDragon\<close>, in row \<open>r\<close>.\<close>

definition beadInfo :: "IntervalRule \<Rightarrow> int \<Rightarrow> int \<Rightarrow> DType \<Rightarrow> Streak \<Rightarrow> DragonInfo" where
  "beadInfo rule rowNextHeight r ty streak =
     \<lparr>d_ruleId = rule_id rule, d_ruleName = label rule, d_type = ty, d_mode = M_bead,
      d_value = valueLabel ty (s_value streak), d_rawType = s_value streak,
      d_count = s_count streak, d_color = colorOf ty (s_value streak),
      d_threshold = threshold rule, d_nextHeight = rowNextHeight, d_rowId = Some (r + 1)\<rparr>"

definition addBeadDragon ::
  "DragonFilter \<Rightarrow> FollowedPattern list \<Rightarrow> IntervalRule \<Rightarrow> int \<Rightarrow> int \<Rightarrow> DType \<Rightarrow> Streak
     \<Rightarrow> Results \<Rightarrow> Results" where
  "addBeadDragon activeFilter followedPatterns rule rowNextHeight r ty streak res =
     (let info = beadInfo rule rowNextHeight r ty streak;
          matches = matchesFilter activeFilter info;
          res1 = (if s_count streak \<ge> threshold rule \<and> matches
                  then res\<lparr>beadResults := beadResults res @ [info]\<rparr> else res);
          isFollowed = find (\<lambda>fp. fp_ruleId fp = rule_id rule \<and> fp_type fp = ty
                                   \<and> fp_mode fp = M_bead \<and> fp_rowId fp = Some (r + 1))
                            followedPatterns
      in if isFollowed \<noteq> None \<and> matches
         then res1\<lparr>watchResults := watchResults res1 @ [info]\<rparr> else res1)"

text \<open>
  The body of \<^verbatim>\<open>for (let r = 0; r < rows; r++)\<close> for one \<open>r\<close>; \<^verbatim>\<open>continue\<close> on an
  empty row. \<^term>\<open>None\<close> is an exception thrown.
\<close>

definition rowStep ::
  "DragonFilter \<Rightarrow> FollowedPattern list \<Rightarrow> IntervalRule \<Rightarrow> BlockData list \<Rightarrow> int
     \<Rightarrow> Results \<Rightarrow> Results option" where
  "rowStep activeFilter followedPatterns rule flt r res =
     (case rowItems rule flt r of
        [] \<Rightarrow> Some res
      | b0 # rest \<Rightarrow>
          (case (calcRowStreak Key_type (b0 # rest), calcRowStreak Key_sizeType (b0 # rest)) of
             (Some rpStreak, Some rsStreak) \<Rightarrow>
               (let rowNextHeight = height b0 + interval rule * rows rule
                in Some (addBeadDragon activeFilter followedPatterns rule rowNextHeight r T_size
                           rsStreak
                          (addBeadDragon activeFilter followedPatterns rule rowNextHeight r
                             T_parity rpStreak res)))
           | _ \<Rightarrow> None))"

fun rowLoop ::
  "DragonFilter \<Rightarrow> FollowedPattern list \<Rightarrow> IntervalRule \<Rightarrow> BlockData list \<Rightarrow> int list
     \<Rightarrow> Results \<Rightarrow> Results option" where
  "rowLoop activeFilter followedPatterns rule flt [] res = Some res"
| "rowLoop activeFilter followedPatterns rule flt (r # rs) res =
     (case rowStep activeFilter followedPatterns rule flt r res of
        None \<Rightarrow> None
      | Some res' \<Rightarrow> rowLoop activeFilter followedPatterns rule flt rs res')"

subsection \<open>The aggregator (the \<^verbatim>\<open>useMemo\<close> block)\<close>

text \<open>The callback of \<^verbatim>\<open>rules.forEach\<close>; the rows run over \<open>r = 0, ..., rows - 1\<close>.\<close>

definition ruleStep ::
  "DragonFilter \<Rightarrow> FollowedPattern list \<Rightarrow> BlockData list \<Rightarrow> IntervalRule
     \<Rightarrow> Results \<Rightarrow> Results option" where
  "ruleStep activeFilter followedPatterns allBlocks rule res =
     (case filtered allBlocks rule of
        [] \<Rightarrow> Some res
      | b0 # rest \<Rightarrow>
          (let latestHeight = height b0;
               nextHeight = latestHeight + interval rule
           in case (calculateStreak Key_type (b0 # rest),
                    calculateStreak Key_sizeType (b0 # rest)) of
                (Some pStreak, Some sStreak) \<Rightarrow>
                  rowLoop activeFilter followedPatterns rule (b0 # rest) [0 .. rows rule - 1]
                    (addTrendDragon activeFilter followedPatterns rule nextHeight T_size sStreak
                      (addTrendDragon activeFilter followedPatterns rule nextHeight T_parity
                         pStreak res))
              | _ \<Rightarrow> None))"

fun forEachRule ::
  "DragonFilter \<Rightarrow> FollowedPattern list \<Rightarrow> BlockData list \<Rightarrow> IntervalRule list
     \<Rightarrow> Results \<Rightarrow> Results option" where
  "forEachRule activeFilter followedPatterns allBlocks [] res = Some res"
| "forEachRule activeFilter followedPatterns allBlocks (rule # rules) res =
     (case ruleStep activeFilter followedPatterns allBlocks rule res of
        None \<Rightarrow> None
      | Some res' \<Rightarrow> forEachRule activeFilter followedPatterns allBlocks rules res')"

record Dragons =
  trendDragons :: "DragonInfo list"
  beadRowDragons :: "DragonInfo list"
  followedResults :: "DragonInfo list"

text \<open>\<^verbatim>\<open>xs.sort((a, b) => b.count - a.count)\<close>: stable, by descending count.\<close>

definition sortByCount :: "DragonInfo list \<Rightarrow> DragonInfo list" where
  "sortByCount ds = sort_key (\<lambda>d. - d_count d) ds"

definition useMemo ::
  "DragonFilter \<Rightarrow> FollowedPattern list \<Rightarrow> BlockData list \<Rightarrow> IntervalRule list
     \<Rightarrow> Dragons option" where
  "useMemo activeFilter followedPatterns allBlocks rules =
     (if allBlocks = []
      then Some \<lparr>trendDragons = [], beadRowDragons = [], followedResults = []\<rparr>
      else
        (case forEachRule activeFilter followedPatterns allBlocks rules
                \<lparr>trendResults = [], beadResults = [], watchResults = []\<rparr> of
           None \<Rightarrow> None
         | Some res \<Rightarrow>
             Some \<lparr>trendDragons = sortByCount (trendResults res),
                   beadRowDragons = sortByCount (beadResults res),
                   followedResults = sortByCount (watchResults res)\<rparr>))"

subsection \<open>Template strings\<close>

text \<open>A number in a template string: its decimal digits, with a sign when negative.\<close>

definition digit_char :: "nat \<Rightarrow> char" where
  "digit_char n = ''0123456789'' ! (n mod 10)"

fun show_nat :: "nat \<Rightarrow> string" where
  "show_nat n = (if n < 10 then [digit_char n] else show_nat (n div 10) @ [digit_char n])"

declare show_nat.simps [simp del]

definition show_int :: "int \<Rightarrow> string" where
  "show_int i = (if i < 0 then CHR ''-'' # show_nat (nat (- i)) else show_nat (nat i))"

fun typeName :: "DType \<Rightarrow> string" where
  "typeName T_parity = ''parity''"
| "typeName T_size = ''size''"

fun modeName :: "Mode \<Rightarrow> string" where
  "modeName M_trend = ''trend''"
| "modeName M_bead = ''bead''"

fun rawName :: "RawType \<Rightarrow> string" where
  "rawName (OfType ODD) = ''ODD''"
| "rawName (OfType EVEN) = ''EVEN''"
| "rawName (OfSize BIG) = ''BIG''"
| "rawName (OfSize SMALL) = ''SMALL''"

text \<open>\<^verbatim>\<open>${x.rowId || ''}\<close>: \<^verbatim>\<open>undefined\<close> and 0 are falsy.\<close>

fun rowIdStr :: "int option \<Rightarrow> string" where
  "rowIdStr None = []"
| "rowIdStr (Some n) = (if n = 0 then [] else show_int n)"

text \<open>\<^verbatim>\<open>xs.join(sep)\<close>.\<close>

fun join :: "string \<Rightarrow> string list \<Rightarrow> string" where
  "join sep [] = []"
| "join sep [x] = x"
| "join sep (x # y # ys) = x @ sep @ join sep (y # ys)"

subsection \<open>The tracker\<close>

text \<open>
  \<^verbatim>\<open>DragonStatRecord\<close> is imported from the types module, which does not declare it in
  this repository; its fields are the ones of the object literal the effect pushes.
\<close>

record DragonStatRecord =
  r_id :: string
  r_timestamp :: int
  r_ruleId :: string
  r_ruleName :: string
  r_type :: DType
  r_mode :: Mode
  r_rawType :: RawType
  r_streakLength :: int
  r_rowId :: "int option"

text \<open>The key of an observation and of a record, and the fingerprint entry.\<close>

definition dragonKey :: "DragonInfo \<Rightarrow> string" where
  "dragonKey d =
     d_ruleId d @ ''|'' @ typeName (d_type d) @ ''|'' @ modeName (d_mode d) @ ''|''
       @ rowIdStr (d_rowId d) @ ''|'' @ rawName (d_rawType d)"

definition recordKey :: "DragonStatRecord \<Rightarrow> string" where
  "recordKey r =
     r_ruleId r @ ''|'' @ typeName (r_type r) @ ''|'' @ modeName (r_mode r) @ ''|''
       @ rowIdStr (r_rowId r) @ ''|'' @ rawName (r_rawType r)"

definition fingerprintEntry :: "DragonInfo \<Rightarrow> string" where
  "fingerprintEntry d =
     d_ruleId d @ ''|'' @ typeName (d_type d) @ ''|'' @ modeName (d_mode d) @ ''|''
       @ rowIdStr (d_rowId d) @ ''|'' @ rawName (d_rawType d) @ ''|'' @ show_int (d_count d)"

text \<open>
  \<^verbatim>\<open>allDragons.map(...).sort().join(';;')\<close>. The default sort of strings is the
  lexicographic order of their code units.
\<close>

definition fingerprint :: "DragonInfo list \<Rightarrow> string" where
  "fingerprint allDragons = join '';;'' (sort (map fingerprintEntry allDragons))"

text \<open>
  What one pass of the loop reads from the outside: \<^verbatim>\<open>Date.now()\<close> for the id or for
  the bumped timestamp, the six characters cut from \<^verbatim>\<open>Math.random().toString(36)\<close>, and
  \<^verbatim>\<open>Date.now()\<close> for the timestamp of a new record.
\<close>

record Tick =
  now_first :: int
  random_part :: string
  now_second :: int

definition newRecord :: "Tick \<Rightarrow> DragonInfo \<Rightarrow> DragonStatRecord" where
  "newRecord tick dragon =
     \<lparr>r_id = show_int (now_first tick) @ ''-'' @ random_part tick,
      r_timestamp = now_second tick,
      r_ruleId = d_ruleId dragon, r_ruleName = d_ruleName dragon, r_type = d_type dragon,
      r_mode = d_mode dragon, r_rawType = d_rawType dragon, r_streakLength = d_count dragon,
      r_rowId = d_rowId dragon\<rparr>"

text \<open>
  \<^verbatim>\<open>existing\<close> is the first record that \<^verbatim>\<open>find\<close> meets; the assignment to its fields
  changes that element of \<^verbatim>\<open>updated\<close> in place.
\<close>

fun updateFirst :: "('a \<Rightarrow> bool) \<Rightarrow> ('a \<Rightarrow> 'a) \<Rightarrow> 'a list \<Rightarrow> 'a list" where
  "updateFirst P f [] = []"
| "updateFirst P f (x # xs) = (if P x then f x # xs else x # updateFirst P f xs)"

definition recordStep :: "Tick \<Rightarrow> DragonInfo \<Rightarrow> DragonStatRecord list \<Rightarrow> DragonStatRecord list" where
  "recordStep tick dragon updated =
     (let key = dragonKey dragon
      in case find (\<lambda>r. recordKey r = key) updated of
           Some existing \<Rightarrow>
             (if d_count dragon > r_streakLength existing
              then updateFirst (\<lambda>r. recordKey r = key)
                     (\<lambda>r. r\<lparr>r_streakLength := d_count dragon, r_timestamp := now_first tick\<rparr>)
                     updated
              else updated)
         | None \<Rightarrow> updated @ [newRecord tick dragon])"

text \<open>\<^verbatim>\<open>for (const dragon of allDragons)\<close>; pass \<open>i\<close> reads \<open>clock i\<close>.\<close>

fun recordLoop ::
  "(nat \<Rightarrow> Tick) \<Rightarrow> nat \<Rightarrow> DragonInfo list \<Rightarrow> DragonStatRecord list \<Rightarrow> DragonStatRecord list" where
  "recordLoop clock i [] updated = updated"
| "recordLoop clock i (dragon # rest) updated =
     recordLoop clock (Suc i) rest (recordStep (clock i) dragon updated)"

text \<open>
  The state of the component that the tracker reads and writes, with the calls made to
  \<^verbatim>\<open>debouncedSaveDragonStats\<close> (their arguments, in order) and to \<^verbatim>\<open>clearDragonStatsAPI\<close>.
\<close>

record Tracker =
  dragonRecords :: "DragonStatRecord list"
  isTracking :: bool
  prevDragonsRef :: string
  isInitializedRef :: bool
  saveCalls :: "(DragonStatRecord list \<times> bool) list"
  clearCalls :: nat

definition initialTracker :: Tracker where
  "initialTracker =
     \<lparr>dragonRecords = [], isTracking = False, prevDragonsRef = [],
      isInitializedRef = False, saveCalls = [], clearCalls = 0\<rparr>"

text \<open>
  The mount effect once \<^verbatim>\<open>loadDragonStats\<close> has resolved: \<^term>\<open>None\<close> for \<^verbatim>\<open>null\<close>,
  otherwise the saved record list (when present) and the saved flag.
\<close>

definition loadEffect :: "(DragonStatRecord list option \<times> bool) option \<Rightarrow> Tracker \<Rightarrow> Tracker" where
  "loadEffect saved st =
     (case saved of
        None \<Rightarrow> st\<lparr>isInitializedRef := True\<rparr>
      | Some (recs, tracking) \<Rightarrow>
          (let st1 = (case recs of None \<Rightarrow> st | Some rs \<Rightarrow> st\<lparr>dragonRecords := rs\<rparr>);
               st2 = (if tracking then st1\<lparr>isTracking := tracking\<rparr> else st1)
           in st2\<lparr>isInitializedRef := True\<rparr>))"

text \<open>\<^verbatim>\<open>const allDragons = [...trendDragons, ...beadRowDragons]\<close>.\<close>

definition allDragons :: "Dragons \<Rightarrow> DragonInfo list" where
  "allDragons dragons = trendDragons dragons @ beadRowDragons dragons"

text \<open>The tracking effect, run with the aggregator's current result.\<close>

definition trackEffect :: "(nat \<Rightarrow> Tick) \<Rightarrow> Dragons \<Rightarrow> Tracker \<Rightarrow> Tracker" where
  "trackEffect clock dragons st =
     (if \<not> isTracking st \<or> \<not> isInitializedRef st then st
      else
        (let fp = fingerprint (allDragons dragons)
         in if fp = prevDragonsRef st then st
            else
              (let updated = recordLoop clock 0 (allDragons dragons) (dragonRecords st)
               in st\<lparr>prevDragonsRef := fp, dragonRecords := updated,
                     saveCalls := saveCalls st @ [(updated, True)]\<rparr>)))"

definition handleStartTracking :: "Tracker \<Rightarrow> Tracker" where
  "handleStartTracking st =
     st\<lparr>isTracking := True, prevDragonsRef := [],
        saveCalls := saveCalls st @ [(dragonRecords st, True)]\<rparr>"

definition handleStopTracking :: "Tracker \<Rightarrow> Tracker" where
  "handleStopTracking st =
     st\<lparr>isTracking := False, saveCalls := saveCalls st @ [(dragonRecords st, False)]\<rparr>"

text \<open>
  \<^verbatim>\<open>handleClearStats\<close>: \<open>confirmed\<close> is the answer of \<^verbatim>\<open>window.confirm\<close>; \<open>remoteOk\<close> is
  the value \<^verbatim>\<open>clearDragonStatsAPI\<close> resolves to (it catches its own errors and resolves
  to \<^verbatim>\<open>false\<close>), awaited after the two local assignments and then dropped.
\<close>

definition handleClearStats :: "bool \<Rightarrow> bool \<Rightarrow> Tracker \<Rightarrow> Tracker" where
  "handleClearStats confirmed remoteOk st =
     (if \<not> confirmed then st
      else st\<lparr>dragonRecords := [], prevDragonsRef := [], clearCalls := Suc (clearCalls st)\<rparr>)"

text \<open>A run of the tracking effect over successive aggregator results.\<close>

fun trackMany :: "((nat \<Rightarrow> Tick) \<times> Dragons) list \<Rightarrow> Tracker \<Rightarrow> Tracker" where
  "trackMany [] st = st"
| "trackMany ((clock, dragons) # rest) st = trackMany rest (trackEffect clock dragons st)"

subsection \<open>The observations of a rule\<close>

text \<open>
  The \<^verbatim>\<open>info\<close> objects that the callback of \<^verbatim>\<open>rules.forEach\<close> builds for one rule, in
  the order in which it builds them and before any gate: the two of the whole list,
  then the two of every row that has a block.
\<close>

definition streakAt :: "StreakKey \<Rightarrow> BlockData \<Rightarrow> BlockData list \<Rightarrow> Streak" where
  "streakAt key b0 xs =
     \<lparr>s_value = readKey key b0, s_count = streakLoop key (readKey key b0) xs 0\<rparr>"

definition trendInfos :: "IntervalRule \<Rightarrow> BlockData list \<Rightarrow> DragonInfo list" where
  "trendInfos rule flt =
     (case flt of
        [] \<Rightarrow> []
      | b0 # _ \<Rightarrow>
          [trendInfo rule (height b0 + interval rule) T_parity (streakAt Key_type b0 flt),
           trendInfo rule (height b0 + interval rule) T_size (streakAt Key_sizeType b0 flt)])"

definition rowInfos :: "IntervalRule \<Rightarrow> BlockData list \<Rightarrow> int \<Rightarrow> DragonInfo list" where
  "rowInfos rule flt r =
     (case rowItems rule flt r of
        [] \<Rightarrow> []
      | b0 # rest \<Rightarrow>
          [beadInfo rule (height b0 + interval rule * rows rule) r T_parity
             (streakAt Key_type b0 (b0 # rest)),
           beadInfo rule (height b0 + interval rule * rows rule) r T_size
             (streakAt Key_sizeType b0 (b0 # rest))])"

definition ruleInfos :: "BlockData list \<Rightarrow> IntervalRule \<Rightarrow> DragonInfo list" where
  "ruleInfos allBlocks rule =
     trendInfos rule (filtered allBlocks rule)
       @ concat (map (rowInfos rule (filtered allBlocks rule)) [0 .. rows rule - 1])"

definition allInfos :: "BlockData list \<Rightarrow> IntervalRule list \<Rightarrow> DragonInfo list" where
  "allInfos allBlocks rules = concat (map (ruleInfos allBlocks) rules)"

text \<open>
  The two gates, as predicates on an observation. A watched pattern matches an
  observation of the whole list by rule, dimension and mode, and an observation of a
  row by its row index as well.
\<close>

definition isFollowed :: "FollowedPattern list \<Rightarrow> DragonInfo \<Rightarrow> bool" where
  "isFollowed followedPatterns d =
     list_ex (\<lambda>fp. fp_ruleId fp = d_ruleId d \<and> fp_type fp = d_type d \<and> fp_mode fp = d_mode d
                   \<and> (d_mode d = M_trend \<or> fp_rowId fp = d_rowId d)) followedPatterns"

definition passesMain :: "DragonFilter \<Rightarrow> DragonInfo \<Rightarrow> bool" where
  "passesMain activeFilter d = (d_count d \<ge> d_threshold d \<and> matchesFilter activeFilter d)"

definition passesWatch :: "DragonFilter \<Rightarrow> FollowedPattern list \<Rightarrow> DragonInfo \<Rightarrow> bool" where
  "passesWatch activeFilter followedPatterns d =
     (isFollowed followedPatterns d \<and> matchesFilter activeFilter d)"

definition emit :: "DragonFilter \<Rightarrow> FollowedPattern list \<Rightarrow> Results \<Rightarrow> DragonInfo \<Rightarrow> Results" where
  "emit activeFilter followedPatterns res d =
     \<lparr>trendResults = trendResults res
         @ (if d_mode d = M_trend \<and> passesMain activeFilter d then [d] else []),
      beadResults = beadResults res
         @ (if d_mode d = M_bead \<and> passesMain activeFilter d then [d] else []),
      watchResults = watchResults res
         @ (if passesWatch activeFilter followedPatterns d then [d] else [])\<rparr>"

text \<open>
  One record list continues another: every old position keeps its key and id, its
  length has not gone down, and a record whose length is the same is the same record.
\<close>

definition recordsGrow :: "DragonStatRecord list \<Rightarrow> DragonStatRecord list \<Rightarrow> bool" where
  "recordsGrow old new =
     (length old \<le> length new \<and>
      (\<forall>i < length old.
         recordKey (new ! i) = recordKey (old ! i) \<and> r_id (new ! i) = r_id (old ! i) \<and>
         r_streakLength (old ! i) \<le> r_streakLength (new ! i) \<and>
         (r_streakLength (new ! i) = r_streakLength (old ! i) \<longrightarrow> new ! i = old ! i)))"

subsection \<open>The follow button of a card\<close>

text \<open>
  The pattern that \<^verbatim>\<open>handleFollowClick\<close> hands to \<^verbatim>\<open>onToggleFollow\<close> for a card: the
  rule id, dimension, mode and row index of its observation.
\<close>

definition signatureOf :: "DragonInfo \<Rightarrow> FollowedPattern" where
  "signatureOf dragon =
     \<lparr>fp_ruleId = d_ruleId dragon, fp_type = d_type dragon, fp_mode = d_mode dragon,
      fp_rowId = d_rowId dragon\<rparr>"

text \<open>
  \<^verbatim>\<open>isFollowed\<close> of \<^verbatim>\<open>renderDragonCard\<close>: \<^verbatim>\<open>!!followedPatterns.find(...)\<close> on all four
  fields.
\<close>

definition cardIsFollowed :: "FollowedPattern list \<Rightarrow> DragonInfo \<Rightarrow> bool" where
  "cardIsFollowed followedPatterns dragon =
     (find (\<lambda>fp. fp_ruleId fp = d_ruleId dragon \<and> fp_type fp = d_type dragon
                 \<and> fp_mode fp = d_mode dragon \<and> fp_rowId fp = d_rowId dragon)
        followedPatterns \<noteq> None)"

subsection \<open>Data for the examples\<close>

text \<open>
  A tracker that has loaded nothing and has been started, a clock that starts at a given
  time, and an aggregator result with one observation: \<open>n\<close> ODD blocks in a row under
  a rule \<^verbatim>\<open>r1\<close> of interval 1.
\<close>

definition trackingOn :: Tracker where
  "trackingOn = handleStartTracking (loadEffect None initialTracker)"

definition tickAt :: "int \<Rightarrow> nat \<Rightarrow> Tick" where
  "tickAt t i = \<lparr>now_first = t + int i, random_part = ''k3x9qa'', now_second = t + int i\<rparr>"

definition oddRun :: "int \<Rightarrow> Dragons" where
  "oddRun n =
     \<lparr>trendDragons =
        [trendInfo \<lparr>rule_id = ''r1'', label = ''one'', rule_value = 1, startBlock = Some 0,
                    trendRows = 6, beadRows = Some 6, dragonThreshold = None\<rparr>
           8 T_parity \<lparr>s_value = OfType ODD, s_count = n\<rparr>],
      beadRowDragons = [], followedResults = []\<rparr>"

text \<open>Three EVEN blocks, and a rule of interval 1 with a single row.\<close>

definition evenBlocks :: "BlockData list" where
  "evenBlocks =
     [\<lparr>height = 3, hash = ''h3'', resultValue = 2, btype = EVEN, sizeType = BIG, timestamp = ''t3''\<rparr>,
      \<lparr>height = 2, hash = ''h2'', resultValue = 4, btype = EVEN, sizeType = BIG, timestamp = ''t2''\<rparr>,
      \<lparr>height = 1, hash = ''h1'', resultValue = 6, btype = EVEN, sizeType = SMALL, timestamp = ''t1''\<rparr>]"

definition ruleOneRow :: IntervalRule where
  "ruleOneRow =
     \<lparr>rule_id = ''r1'', label = ''one'', rule_value = 1, startBlock = Some 0, trendRows = 6,
      beadRows = Some 1, dragonThreshold = None\<rparr>"

text \<open>
  Three ODD blocks at heights 4, 2 and 0, and a rule of interval 1 with two rows whose
  start block, 5, is above them.
\<close>

definition blocksBelowStart :: "BlockData list" where
  "blocksBelowStart =
     [\<lparr>height = 4, hash = ''h4'', resultValue = 1, btype = ODD, sizeType = BIG, timestamp = ''t4''\<rparr>,
      \<lparr>height = 2, hash = ''h2'', resultValue = 3, btype = ODD, sizeType = BIG, timestamp = ''t2''\<rparr>,
      \<lparr>height = 0, hash = ''h0'', resultValue = 5, btype = ODD, sizeType = BIG, timestamp = ''t0''\<rparr>]"

definition ruleStartFive :: IntervalRule where
  "ruleStartFive =
     \<lparr>rule_id = ''r1'', label = ''one'', rule_value = 1, startBlock = Some 5, trendRows = 6,
      beadRows = Some 2, dragonThreshold = None\<rparr>"


section \<open>Theorems\<close>

subsection \<open>Remainders and the order of the filtered list\<close>

lemma js_rem_zero_iff: "b \<noteq> 0 \<Longrightarrow> js_rem a b = Some 0 \<longleftrightarrow> a mod b = 0"
proof -
  assume b: "b \<noteq> 0"
  have "\<bar>a\<bar> mod \<bar>b\<bar> = 0 \<longleftrightarrow> a mod b = 0"
    by (simp add: dvd_eq_mod_eq_0 [symmetric])
  moreover have "sgn a * (\<bar>a\<bar> mod \<bar>b\<bar>) = 0 \<longleftrightarrow> \<bar>a\<bar> mod \<bar>b\<bar> = 0"
    by (cases "a = 0") (auto simp: sgn_if)
  ultimately show ?thesis using b by (simp add: js_rem_def)
qed

lemma checkAlignment_iff:
  "checkAlignment rule h \<longleftrightarrow>
     interval rule \<le> 1
     \<or> (epoch rule > 0 \<and> h \<ge> epoch rule \<and> (h - epoch rule) mod interval rule = 0)
     \<or> (epoch rule \<le> 0 \<and> h mod interval rule = 0)"
  by (auto simp: checkAlignment_def js_rem_zero_iff)

lemma sorted_wrt_desc_sort_key:
  "sorted_wrt (\<lambda>a b. height a \<ge> height b) (sort_key (\<lambda>b. - height b) xs)"
proof -
  have "sorted (map (\<lambda>b. - height b) (sort_key (\<lambda>b. - height b) xs))"
    by (rule sorted_sort_key)
  then show ?thesis
    by (simp add: sorted_map)
qed

lemma distinct_heights_filtered:
  assumes "distinct (map height allBlocks)"
  shows "distinct (map (\<lambda>b. - height b) (filtered allBlocks rule))"
proof -
  let ?ys = "filter (\<lambda>b. checkAlignment rule (height b)) allBlocks"
  have "distinct (map height ?ys)"
    using assms by (rule distinct_map_filter)
  then have "distinct ?ys" and "inj_on height (set ?ys)"
    by (simp_all add: distinct_map)
  then have "distinct (sort_key (\<lambda>b. - height b) ?ys)"
    and "inj_on (\<lambda>b. - height b) (set (sort_key (\<lambda>b. - height b) ?ys))"
    by (simp_all add: inj_on_def)
  then show ?thesis
    by (simp add: filtered_def distinct_map)
qed

lemma strict_desc_filtered:
  assumes "distinct (map height allBlocks)"
  shows "sorted_wrt (\<lambda>a c. height a > height c) (filtered allBlocks rule)"
proof -
  have "sorted (map (\<lambda>b. - height b) (filtered allBlocks rule))"
    by (simp add: filtered_def)
  with distinct_heights_filtered [OF assms, of rule]
  have "sorted_wrt (<) (map (\<lambda>b. - height b) (filtered allBlocks rule))"
    by (simp add: strict_sorted_iff)
  then show ?thesis
    by (simp add: sorted_wrt_map)
qed

subsection \<open>C1: the alignment filter\<close>

lemma filtered_ties:
  "filter (\<lambda>c. height c = h) (filtered allBlocks rule)
     = (if checkAlignment rule h then filter (\<lambda>c. height c = h) allBlocks else [])"
proof -
  let ?ys = "filter (\<lambda>b. checkAlignment rule (height b)) allBlocks"
  have "filter (\<lambda>c. - height c = - h) (sort_key (\<lambda>b. - height b) ?ys)
      = filter (\<lambda>c. - height c = - h) ?ys"
    by (rule sort_key_stable)
  then have "filter (\<lambda>c. height c = h) (filtered allBlocks rule) = filter (\<lambda>c. height c = h) ?ys"
    by (simp add: filtered_def)
  also have "\<dots> = filter (\<lambda>c. checkAlignment rule h \<and> height c = h) allBlocks"
    by (auto intro: filter_cong)
  also have "\<dots> = (if checkAlignment rule h then filter (\<lambda>c. height c = h) allBlocks else [])"
    by simp
  finally show ?thesis .
qed

text \<open>
  C1 (amended). For every rule with a start offset that is not negative and every block,
  the filtered list holds the block if and only if it is a block of the input and
  interval \<le> 1, or startOffset > 0 and height \<ge> startOffset and
  (height - startOffset) mod interval = 0, or startOffset = 0 and height mod interval = 0.
  The filtered list is ordered by descending height, newest first, and the order is
  strict when the heights of the input are pairwise distinct. The blocks of one height
  are all kept when that height is aligned, in the order in which the input has them.
\<close>

theorem alignment_filter:
  "0 \<le> epoch rule \<Longrightarrow>
   (b \<in> set (filtered allBlocks rule) \<longleftrightarrow>
      b \<in> set allBlocks \<and>
      (interval rule \<le> 1
       \<or> (epoch rule > 0 \<and> height b \<ge> epoch rule
            \<and> (height b - epoch rule) mod interval rule = 0)
       \<or> (epoch rule = 0 \<and> height b mod interval rule = 0)))
   \<and> sorted_wrt (\<lambda>a c. height a \<ge> height c) (filtered allBlocks rule)
   \<and> (distinct (map height allBlocks) \<longrightarrow>
        sorted_wrt (\<lambda>a c. height a > height c) (filtered allBlocks rule))
   \<and> filter (\<lambda>c. height c = h) (filtered allBlocks rule)
       = (if interval rule \<le> 1
             \<or> (epoch rule > 0 \<and> h \<ge> epoch rule \<and> (h - epoch rule) mod interval rule = 0)
             \<or> (epoch rule = 0 \<and> h mod interval rule = 0)
          then filter (\<lambda>c. height c = h) allBlocks else [])"
proof (intro conjI impI)
  assume e: "0 \<le> epoch rule"
  show "b \<in> set (filtered allBlocks rule) \<longleftrightarrow>
      b \<in> set allBlocks \<and>
      (interval rule \<le> 1
       \<or> (epoch rule > 0 \<and> height b \<ge> epoch rule
            \<and> (height b - epoch rule) mod interval rule = 0)
       \<or> (epoch rule = 0 \<and> height b mod interval rule = 0))"
    using e by (auto simp: filtered_def checkAlignment_iff)
  have "checkAlignment rule h \<longleftrightarrow>
      interval rule \<le> 1
      \<or> (epoch rule > 0 \<and> h \<ge> epoch rule \<and> (h - epoch rule) mod interval rule = 0)
      \<or> (epoch rule = 0 \<and> h mod interval rule = 0)"
    using e by (auto simp: checkAlignment_iff)
  then show "filter (\<lambda>c. height c = h) (filtered allBlocks rule)
       = (if interval rule \<le> 1
             \<or> (epoch rule > 0 \<and> h \<ge> epoch rule \<and> (h - epoch rule) mod interval rule = 0)
             \<or> (epoch rule = 0 \<and> h mod interval rule = 0)
          then filter (\<lambda>c. height c = h) allBlocks else [])"
    by (simp only: filtered_ties)
next
  show "sorted_wrt (\<lambda>a c. height a \<ge> height c) (filtered allBlocks rule)"
    unfolding filtered_def by (rule sorted_wrt_desc_sort_key)
next
  assume "distinct (map height allBlocks)"
  then show "sorted_wrt (\<lambda>a c. height a > height c) (filtered allBlocks rule)"
    by (rule strict_desc_filtered)
qed

theorem alignment_filter_witness:
  "filtered
     [\<lparr>height = 6, hash = ''a'', resultValue = 1, btype = ODD, sizeType = BIG, timestamp = ''t6''\<rparr>,
      \<lparr>height = 9, hash = ''b'', resultValue = 2, btype = EVEN, sizeType = SMALL, timestamp = ''t9''\<rparr>,
      \<lparr>height = 7, hash = ''c'', resultValue = 3, btype = ODD, sizeType = SMALL, timestamp = ''t7''\<rparr>]
     \<lparr>rule_id = ''r3'', label = ''three'', rule_value = 3, startBlock = Some 0, trendRows = 6,
      beadRows = Some 6, dragonThreshold = None\<rparr>
   = [\<lparr>height = 9, hash = ''b'', resultValue = 2, btype = EVEN, sizeType = SMALL, timestamp = ''t9''\<rparr>,
      \<lparr>height = 6, hash = ''a'', resultValue = 1, btype = ODD, sizeType = BIG, timestamp = ''t6''\<rparr>]
   \<and> sorted_wrt (\<lambda>a c. height a > height c)
       (filtered
         [\<lparr>height = 6, hash = ''a'', resultValue = 1, btype = ODD, sizeType = BIG, timestamp = ''t6''\<rparr>,
          \<lparr>height = 9, hash = ''b'', resultValue = 2, btype = EVEN, sizeType = SMALL, timestamp = ''t9''\<rparr>,
          \<lparr>height = 7, hash = ''c'', resultValue = 3, btype = ODD, sizeType = SMALL, timestamp = ''t7''\<rparr>]
         \<lparr>rule_id = ''r3'', label = ''three'', rule_value = 3, startBlock = Some 0, trendRows = 6,
          beadRows = Some 6, dragonThreshold = None\<rparr>)
   \<and> filter (\<lambda>c. height c = 7)
       (filtered
         [\<lparr>height = 7, hash = ''a'', resultValue = 1, btype = ODD, sizeType = BIG, timestamp = ''t''\<rparr>,
          \<lparr>height = 8, hash = ''c'', resultValue = 3, btype = ODD, sizeType = BIG, timestamp = ''v''\<rparr>,
          \<lparr>height = 7, hash = ''b'', resultValue = 2, btype = EVEN, sizeType = SMALL, timestamp = ''u''\<rparr>]
         \<lparr>rule_id = ''r1'', label = ''one'', rule_value = 1, startBlock = Some 0, trendRows = 6,
          beadRows = Some 6, dragonThreshold = None\<rparr>)
     = [\<lparr>height = 7, hash = ''a'', resultValue = 1, btype = ODD, sizeType = BIG, timestamp = ''t''\<rparr>,
        \<lparr>height = 7, hash = ''b'', resultValue = 2, btype = EVEN, sizeType = SMALL, timestamp = ''u''\<rparr>]"
proof -
  let ?blocks = "[\<lparr>height = 6, hash = ''a'', resultValue = 1, btype = ODD, sizeType = BIG, timestamp = ''t6''\<rparr>,
      \<lparr>height = 9, hash = ''b'', resultValue = 2, btype = EVEN, sizeType = SMALL, timestamp = ''t9''\<rparr>,
      \<lparr>height = 7, hash = ''c'', resultValue = 3, btype = ODD, sizeType = SMALL, timestamp = ''t7''\<rparr>]"
  let ?rule = "\<lparr>rule_id = ''r3'', label = ''three'', rule_value = 3, startBlock = Some 0, trendRows = 6,
      beadRows = Some 6, dragonThreshold = None\<rparr>"
  let ?ties = "[\<lparr>height = 7, hash = ''a'', resultValue = 1, btype = ODD, sizeType = BIG, timestamp = ''t''\<rparr>,
          \<lparr>height = 8, hash = ''c'', resultValue = 3, btype = ODD, sizeType = BIG, timestamp = ''v''\<rparr>,
          \<lparr>height = 7, hash = ''b'', resultValue = 2, btype = EVEN, sizeType = SMALL, timestamp = ''u''\<rparr>]"
  let ?one = "\<lparr>rule_id = ''r1'', label = ''one'', rule_value = 1, startBlock = Some 0, trendRows = 6,
          beadRows = Some 6, dragonThreshold = None\<rparr>"
  have e: "0 \<le> epoch ?rule" by (simp add: epoch_def)
  have e1: "0 \<le> epoch ?one" by (simp add: epoch_def)
  have i1: "interval ?one \<le> 1" by (simp add: interval_def)
  have d: "distinct (map height ?blocks)" by simp
  have v: "filtered ?blocks ?rule = [?blocks ! 1, ?blocks ! 0]"
    by (simp add: filtered_def checkAlignment_def interval_def epoch_def js_rem_def)
  from alignment_filter [OF e1, of _ ?ties 7] i1
  have t: "filter (\<lambda>c. height c = 7) (filtered ?ties ?one) = [?ties ! 0, ?ties ! 2]"
    by simp
  from alignment_filter [OF e, of _ ?blocks] d v t show ?thesis by simp
qed

text \<open>
  Two blocks of the same height, both aligned: the filtered list holds both, and its
  heights do not descend strictly.
\<close>

theorem alignment_not_strict:
  "\<not> sorted_wrt (\<lambda>a c. height a > height c)
       (filtered
         [\<lparr>height = 7, hash = ''a'', resultValue = 1, btype = ODD, sizeType = BIG, timestamp = ''t''\<rparr>,
          \<lparr>height = 7, hash = ''b'', resultValue = 2, btype = EVEN, sizeType = SMALL, timestamp = ''u''\<rparr>]
         \<lparr>rule_id = ''r1'', label = ''one'', rule_value = 1, startBlock = Some 0, trendRows = 6,
          beadRows = Some 6, dragonThreshold = None\<rparr>)"
  by (simp add: filtered_def checkAlignment_def interval_def)

subsection \<open>C2: the streak calculator\<close>

lemma streakLoop_takeWhile:
  "streakLoop key v xs n = n + int (length (takeWhile (\<lambda>b. readKey key b = v) xs))"
  by (induction xs arbitrary: n) simp_all

text \<open>
  C2. On a list that is not empty, \<^const>\<open>calculateStreak\<close> returns the class of the first
  element and the number of leading elements of that class, up to the first element of
  another class; the row version is the same function. Five blocks of parities
  EVEN, EVEN, EVEN, ODD, EVEN give (EVEN, 3).
\<close>

theorem streak_calculator:
  "calculateStreak key (b0 # rest)
     = Some \<lparr>s_value = readKey key b0,
             s_count = int (length (takeWhile (\<lambda>b. readKey key b = readKey key b0) (b0 # rest)))\<rparr>
   \<and> calcRowStreak key (b0 # rest) = calculateStreak key (b0 # rest)
   \<and> calculateStreak Key_type
        [b1\<lparr>btype := EVEN\<rparr>, b2\<lparr>btype := EVEN\<rparr>, b3\<lparr>btype := EVEN\<rparr>,
         b4\<lparr>btype := ODD\<rparr>, b5\<lparr>btype := EVEN\<rparr>]
       = Some \<lparr>s_value = OfType EVEN, s_count = 3\<rparr>"
  by (simp add: calculateStreak_def calcRowStreak_def streakLoop_takeWhile)

subsection \<open>C3: the rows\<close>

lemma js_rem_nonneg: "0 \<le> a \<Longrightarrow> 0 < b \<Longrightarrow> js_rem a b = Some (a mod b)"
  by (cases "a = 0") (simp_all add: js_rem_def sgn_if)

text \<open>
  From the start offset on, the rows are the residues of the logical index: a block of
  height \<ge> startOffset is in row \<open>r\<close> exactly when
  floor((height - startOffset) / interval) mod N = r.
\<close>

lemma inRow_from_epoch:
  assumes "1 \<le> interval rule" and "1 \<le> rows rule" and "epoch rule \<le> height b"
  shows "inRow rule r b \<longleftrightarrow> ((height b - epoch rule) div interval rule) mod rows rule = r"
proof -
  have "0 \<le> (height b - epoch rule) div interval rule"
    using assms by (simp add: pos_imp_zdiv_nonneg_iff)
  then show ?thesis
    using assms by (simp add: inRow_def js_floor_div_def js_rem_nonneg)
qed

text \<open>A row keeps the order of the filtered list, and an empty row gives no observation.\<close>

lemma rowItems_order:
  "sorted_wrt (\<lambda>a c. height a \<ge> height c) (rowItems rule (filtered allBlocks rule) r)"
  unfolding rowItems_def filtered_def
  by (rule sorted_wrt_filter) (rule sorted_wrt_desc_sort_key)

lemma rowInfos_empty_row: "rowItems rule flt r = [] \<Longrightarrow> rowInfos rule flt r = []"
  by (simp add: rowInfos_def)

lemma rowInfos_nextHeight:
  "rowItems rule flt r = b0 # rest \<Longrightarrow> d \<in> set (rowInfos rule flt r) \<Longrightarrow>
     d_nextHeight d = height b0 + interval rule * rows rule"
  by (auto simp: rowInfos_def beadInfo_def)

text \<open>The rows of heights 10, 9, 8, 7 under rowCount = 2, interval = 1, startOffset = 0.\<close>

lemma rows_example:
  "map (\<lambda>b. (inRow (rule\<lparr>rule_value := 1, startBlock := Some 0, beadRows := Some 2\<rparr>) 0 b,
             inRow (rule\<lparr>rule_value := 1, startBlock := Some 0, beadRows := Some 2\<rparr>) 1 b))
     [b10\<lparr>height := 10\<rparr>, b9\<lparr>height := 9\<rparr>, b8\<lparr>height := 8\<rparr>, b7\<lparr>height := 7\<rparr>]
   = [(True, False), (False, True), (True, False), (False, True)]"
  by (simp add: inRow_def js_floor_div_def js_rem_def epoch_def interval_def rows_def)

text \<open>
  C3, at blocks below the start offset. Under interval = 1, startOffset = 5,
  rowCount = 2 the blocks of heights 4, 2 and 0 pass the alignment filter. Their logical
  indices are -1, -3 and -5, each of which is 1 mod 2, but the remainder the code takes
  is -1, which is no row: the blocks are in neither row, and the three ODD blocks give
  two sequence-mode observations of length 3 and no row-mode observation.
\<close>

theorem row_partition_below_offset:
  "filtered blocksBelowStart ruleStartFive = blocksBelowStart
   \<and> map (\<lambda>b. js_floor_div (height b - epoch ruleStartFive) (interval ruleStartFive))
         blocksBelowStart
       = [Some (- 1), Some (- 3), Some (- 5)]
   \<and> map (\<lambda>i. i mod rows ruleStartFive) [- 1, - 3, - 5] = [1, 1, 1]
   \<and> map (\<lambda>i. js_rem i (rows ruleStartFive)) [- 1, - 3, - 5]
       = [Some (- 1), Some (- 1), Some (- 1)]
   \<and> rowItems ruleStartFive blocksBelowStart 0 = []
   \<and> rowItems ruleStartFive blocksBelowStart 1 = []
   \<and> map_option (\<lambda>out. (map d_count (trendDragons out), beadRowDragons out))
         (useMemo Filter_ALL [] blocksBelowStart [ruleStartFive])
       = Some ([3, 3], [])"
proof (intro conjI)
  show "filtered blocksBelowStart ruleStartFive = blocksBelowStart"
    by (simp add: filtered_def checkAlignment_def interval_def blocksBelowStart_def
        ruleStartFive_def)
  show "map (\<lambda>b. js_floor_div (height b - epoch ruleStartFive) (interval ruleStartFive))
         blocksBelowStart
       = [Some (- 1), Some (- 3), Some (- 5)]"
    by (simp add: js_floor_div_def epoch_def interval_def blocksBelowStart_def
        ruleStartFive_def)
  show "map (\<lambda>i. i mod rows ruleStartFive) [- 1, - 3, - 5] = [1, 1, 1]"
    by (simp add: rows_def ruleStartFive_def)
  show "map (\<lambda>i. js_rem i (rows ruleStartFive)) [- 1, - 3, - 5]
       = [Some (- 1), Some (- 1), Some (- 1)]"
    by (simp add: js_rem_def rows_def ruleStartFive_def)
  show "rowItems ruleStartFive blocksBelowStart 0 = []"
    by (simp add: rowItems_def inRow_def js_floor_div_def js_rem_def epoch_def interval_def
        rows_def blocksBelowStart_def ruleStartFive_def)
  show "rowItems ruleStartFive blocksBelowStart 1 = []"
    by (simp add: rowItems_def inRow_def js_floor_div_def js_rem_def epoch_def interval_def
        rows_def blocksBelowStart_def ruleStartFive_def)
  show "map_option (\<lambda>out. (map d_count (trendDragons out), beadRowDragons out))
         (useMemo Filter_ALL [] blocksBelowStart [ruleStartFive])
       = Some ([3, 3], [])"
    by code_simp
qed

subsection \<open>The aggregator as a filter of the observations\<close>

lemma find_None_iff_list_ex: "find P xs = None \<longleftrightarrow> \<not> list_ex P xs"
  by (induction xs) auto

lemma rowInfos_Nil: "rowInfos rule [] r = []"
  by (simp add: rowInfos_def rowItems_def)

lemma concat_rowInfos_Nil: "concat (map (rowInfos rule []) rs) = []"
  by (induction rs) (simp_all add: rowInfos_Nil)

lemma addTrendDragon_emit:
  "addTrendDragon af fps rule nh ty s res = emit af fps res (trendInfo rule nh ty s)"
  by (cases res)
    (simp add: addTrendDragon_def emit_def Let_def find_None_iff_list_ex passesMain_def
      passesWatch_def isFollowed_def trendInfo_def matchesFilter_def)

lemma addBeadDragon_emit:
  "addBeadDragon af fps rule nh r ty s res = emit af fps res (beadInfo rule nh r ty s)"
  by (cases res)
    (simp add: addBeadDragon_def emit_def Let_def find_None_iff_list_ex passesMain_def
      passesWatch_def isFollowed_def beadInfo_def matchesFilter_def)

lemma calculateStreak_Cons: "calculateStreak key (b0 # rest) = Some (streakAt key b0 (b0 # rest))"
  by (simp add: calculateStreak_def streakAt_def)

lemma calcRowStreak_Cons: "calcRowStreak key (b0 # rest) = Some (streakAt key b0 (b0 # rest))"
  by (simp add: calcRowStreak_def streakAt_def)

lemma rowStep_emit:
  "rowStep af fps rule flt r res = Some (foldl (emit af fps) res (rowInfos rule flt r))"
  by (simp add: rowStep_def rowInfos_def calcRowStreak_Cons addBeadDragon_emit Let_def
      split: list.split)

lemma rowLoop_emit:
  "rowLoop af fps rule flt rs res
     = Some (foldl (emit af fps) res (concat (map (rowInfos rule flt) rs)))"
  by (induction rs arbitrary: res) (simp_all add: rowStep_emit)

lemma ruleStep_emit:
  "ruleStep af fps allBlocks rule res = Some (foldl (emit af fps) res (ruleInfos allBlocks rule))"
proof (cases "filtered allBlocks rule")
  case Nil
  then show ?thesis
    by (simp add: ruleStep_def ruleInfos_def trendInfos_def concat_rowInfos_Nil)
next
  case (Cons b0 rest)
  then show ?thesis
    by (simp add: ruleStep_def ruleInfos_def trendInfos_def calculateStreak_Cons
        addTrendDragon_emit rowLoop_emit Let_def)
qed

lemma forEachRule_emit:
  "forEachRule af fps allBlocks rules res
     = Some (foldl (emit af fps) res (allInfos allBlocks rules))"
  by (induction rules arbitrary: res) (simp_all add: ruleStep_emit allInfos_def)

lemma foldl_emit:
  "foldl (emit af fps) res ds =
     \<lparr>trendResults = trendResults res @ filter (\<lambda>d. d_mode d = M_trend \<and> passesMain af d) ds,
      beadResults = beadResults res @ filter (\<lambda>d. d_mode d = M_bead \<and> passesMain af d) ds,
      watchResults = watchResults res @ filter (passesWatch af fps) ds\<rparr>"
  by (induction ds arbitrary: res) (simp_all add: emit_def)

lemma filtered_Nil: "filtered [] rule = []"
  by (simp add: filtered_def)

lemma ruleInfos_Nil: "ruleInfos [] rule = []"
  by (simp add: ruleInfos_def filtered_Nil trendInfos_def concat_rowInfos_Nil)

lemma allInfos_Nil: "allInfos [] rules = []"
  by (simp add: allInfos_def ruleInfos_Nil)

lemma useMemo_eq:
  "useMemo af fps allBlocks rules =
     Some \<lparr>trendDragons = sortByCount (filter (\<lambda>d. d_mode d = M_trend \<and> passesMain af d)
                                           (allInfos allBlocks rules)),
           beadRowDragons = sortByCount (filter (\<lambda>d. d_mode d = M_bead \<and> passesMain af d)
                                           (allInfos allBlocks rules)),
           followedResults = sortByCount (filter (passesWatch af fps) (allInfos allBlocks rules))\<rparr>"
  by (simp add: useMemo_def forEachRule_emit foldl_emit allInfos_Nil sortByCount_def)

subsection \<open>C4: the two gates\<close>

lemma trendResults_addTrendDragon:
  "trendResults (addTrendDragon af fps rule nh ty s res)
     = trendResults res
       @ (if threshold rule \<le> s_count s \<and> (af = Filter_ALL \<or> Only (s_value s) = af)
          then [trendInfo rule nh ty s] else [])"
  by (simp add: addTrendDragon_emit emit_def passesMain_def matchesFilter_def trendInfo_def)

lemma watchResults_addTrendDragon:
  "watchResults (addTrendDragon af fps rule nh ty s res)
     = watchResults res
       @ (if list_ex (\<lambda>fp. fp_ruleId fp = rule_id rule \<and> fp_type fp = ty \<and> fp_mode fp = M_trend)
               fps
             \<and> (af = Filter_ALL \<or> Only (s_value s) = af)
          then [trendInfo rule nh ty s] else [])"
  by (simp add: addTrendDragon_emit emit_def passesWatch_def isFollowed_def matchesFilter_def
      trendInfo_def)

lemma beadResults_addBeadDragon:
  "beadResults (addBeadDragon af fps rule nh r ty s res)
     = beadResults res
       @ (if threshold rule \<le> s_count s \<and> (af = Filter_ALL \<or> Only (s_value s) = af)
          then [beadInfo rule nh r ty s] else [])"
  by (simp add: addBeadDragon_emit emit_def passesMain_def matchesFilter_def beadInfo_def)

lemma watchResults_addBeadDragon:
  "watchResults (addBeadDragon af fps rule nh r ty s res)
     = watchResults res
       @ (if list_ex (\<lambda>fp. fp_ruleId fp = rule_id rule \<and> fp_type fp = ty \<and> fp_mode fp = M_bead
                            \<and> fp_rowId fp = Some (r + 1)) fps
             \<and> (af = Filter_ALL \<or> Only (s_value s) = af)
          then [beadInfo rule nh r ty s] else [])"
  by (simp add: addBeadDragon_emit emit_def passesWatch_def isFollowed_def matchesFilter_def
      beadInfo_def)

lemma passesWatch_fun:
  "passesWatch af fps
     = (\<lambda>d. isFollowed fps d \<and> (af = Filter_ALL \<or> Only (d_rawType d) = af))"
  by (simp add: fun_eq_iff passesWatch_def matchesFilter_def)

text \<open>
  The gates as the code applies them. The observation goes into the main list of its
  mode if and only if its length is at least the rule's threshold and it passes the
  active filter (show-all passes everything, otherwise the class must be the filter's),
  and into the watched list if and only if a watched pattern matches it and it passes
  the filter, whatever the threshold. This holds for each call of \<^const>\<open>addTrendDragon\<close>
  and \<^const>\<open>addBeadDragon\<close>, and the three lists the aggregator returns are the
  observations that pass the gates, sorted by descending length.
\<close>

lemma aggregator_gates:
  "(\<exists>out. useMemo af fps allBlocks rules = Some out
      \<and> trendDragons out
          = sortByCount (filter (\<lambda>d. d_mode d = M_trend \<and> d_threshold d \<le> d_count d
                                       \<and> (af = Filter_ALL \<or> Only (d_rawType d) = af))
                           (allInfos allBlocks rules))
      \<and> beadRowDragons out
          = sortByCount (filter (\<lambda>d. d_mode d = M_bead \<and> d_threshold d \<le> d_count d
                                       \<and> (af = Filter_ALL \<or> Only (d_rawType d) = af))
                           (allInfos allBlocks rules))
      \<and> followedResults out
          = sortByCount (filter (\<lambda>d. isFollowed fps d
                                       \<and> (af = Filter_ALL \<or> Only (d_rawType d) = af))
                           (allInfos allBlocks rules)))
   \<and> trendResults (addTrendDragon af fps rule nh ty s res)
       = trendResults res
         @ (if threshold rule \<le> s_count s \<and> (af = Filter_ALL \<or> Only (s_value s) = af)
            then [trendInfo rule nh ty s] else [])
   \<and> watchResults (addTrendDragon af fps rule nh ty s res)
       = watchResults res
         @ (if isFollowed fps (trendInfo rule nh ty s)
               \<and> (af = Filter_ALL \<or> Only (s_value s) = af)
            then [trendInfo rule nh ty s] else [])
   \<and> beadResults (addBeadDragon af fps rule nh r ty s res)
       = beadResults res
         @ (if threshold rule \<le> s_count s \<and> (af = Filter_ALL \<or> Only (s_value s) = af)
            then [beadInfo rule nh r ty s] else [])
   \<and> watchResults (addBeadDragon af fps rule nh r ty s res)
       = watchResults res
         @ (if isFollowed fps (beadInfo rule nh r ty s)
               \<and> (af = Filter_ALL \<or> Only (s_value s) = af)
            then [beadInfo rule nh r ty s] else [])"
proof -
  have agg: "\<exists>out. useMemo af fps allBlocks rules = Some out
      \<and> trendDragons out
          = sortByCount (filter (\<lambda>d. d_mode d = M_trend \<and> d_threshold d \<le> d_count d
                                       \<and> (af = Filter_ALL \<or> Only (d_rawType d) = af))
                           (allInfos allBlocks rules))
      \<and> beadRowDragons out
          = sortByCount (filter (\<lambda>d. d_mode d = M_bead \<and> d_threshold d \<le> d_count d
                                       \<and> (af = Filter_ALL \<or> Only (d_rawType d) = af))
                           (allInfos allBlocks rules))
      \<and> followedResults out
          = sortByCount (filter (\<lambda>d. isFollowed fps d
                                       \<and> (af = Filter_ALL \<or> Only (d_rawType d) = af))
                           (allInfos allBlocks rules))"
    by (simp add: useMemo_eq passesMain_def passesWatch_fun matchesFilter_def)
  have f1: "isFollowed fps (trendInfo rule nh ty s)
      = list_ex (\<lambda>fp. fp_ruleId fp = rule_id rule \<and> fp_type fp = ty \<and> fp_mode fp = M_trend) fps"
    by (simp add: isFollowed_def trendInfo_def)
  have f2: "isFollowed fps (beadInfo rule nh r ty s)
      = list_ex (\<lambda>fp. fp_ruleId fp = rule_id rule \<and> fp_type fp = ty \<and> fp_mode fp = M_bead
                            \<and> fp_rowId fp = Some (r + 1)) fps"
    by (simp add: isFollowed_def beadInfo_def)
  show ?thesis
    using agg
    by (simp only: trendResults_addTrendDragon watchResults_addTrendDragon
        beadResults_addBeadDragon watchResults_addBeadDragon f1 f2 simp_thms)
qed

text \<open>
  The card's own match is membership of the observation's signature in the watched
  set, and so is the aggregator's match as long as no watched pattern of sequence mode
  carries a row index.
\<close>

lemma cardIsFollowed_signature: "cardIsFollowed fps d \<longleftrightarrow> signatureOf d \<in> set fps"
proof -
  have "\<And>fp. (fp_ruleId fp = d_ruleId d \<and> fp_type fp = d_type d \<and> fp_mode fp = d_mode d
          \<and> fp_rowId fp = d_rowId d) \<longleftrightarrow> fp = signatureOf d"
    by (auto simp: signatureOf_def)
  then show ?thesis
    by (simp add: cardIsFollowed_def find_None_iff_list_ex list_ex_iff)
qed

lemma isFollowed_signature:
  assumes "\<forall>fp \<in> set fps. fp_mode fp = M_trend \<longrightarrow> fp_rowId fp = None"
    and "d_mode d = M_trend \<longrightarrow> d_rowId d = None"
  shows "isFollowed fps d \<longleftrightarrow> signatureOf d \<in> set fps"
proof -
  have "\<And>fp. fp \<in> set fps \<Longrightarrow>
      (fp_ruleId fp = d_ruleId d \<and> fp_type fp = d_type d \<and> fp_mode fp = d_mode d
        \<and> (d_mode d = M_trend \<or> fp_rowId fp = d_rowId d)) \<longleftrightarrow> fp = signatureOf d"
    using assms by (auto simp: signatureOf_def)
  then show ?thesis
    by (auto simp: isFollowed_def list_ex_iff)
qed

lemma allInfos_trend_rowId:
  "d \<in> set (allInfos allBlocks rules) \<Longrightarrow> d_mode d = M_trend \<Longrightarrow> d_rowId d = None"
  by (auto simp: allInfos_def ruleInfos_def trendInfos_def rowInfos_def trendInfo_def
      beadInfo_def split: list.splits)

lemma followedResults_signature:
  assumes "\<forall>fp \<in> set fps. fp_mode fp = M_trend \<longrightarrow> fp_rowId fp = None"
  shows "map_option followedResults (useMemo af fps allBlocks rules)
     = Some (sortByCount
         (filter (\<lambda>d. signatureOf d \<in> set fps \<and> (af = Filter_ALL \<or> Only (d_rawType d) = af))
            (allInfos allBlocks rules)))"
proof -
  have "filter (passesWatch af fps) (allInfos allBlocks rules)
      = filter (\<lambda>d. signatureOf d \<in> set fps \<and> (af = Filter_ALL \<or> Only (d_rawType d) = af))
          (allInfos allBlocks rules)"
    using isFollowed_signature [OF assms] allInfos_trend_rowId
    by (intro filter_cong refl) (simp add: passesWatch_def matchesFilter_def)
  then show ?thesis
    by (simp add: useMemo_eq)
qed


subsection \<open>C5: what the tracker is given\<close>






subsection \<open>The fingerprint of a list that is not empty\<close>

lemma join_not_Nil: "x \<noteq> [] \<Longrightarrow> join sep (x # xs) \<noteq> []"
  by (cases xs) simp_all

lemma fingerprintEntry_not_Nil: "fingerprintEntry d \<noteq> []"
  by (simp add: fingerprintEntry_def)

lemma fingerprint_Nil_iff: "fingerprint ds = [] \<longleftrightarrow> ds = []"
proof
  assume fp: "fingerprint ds = []"
  show "ds = []"
  proof (rule ccontr)
    assume "ds \<noteq> []"
    then have "sort (map fingerprintEntry ds) \<noteq> []"
      by (metis length_0_conv length_map length_sort)
    then obtain x xs where eq: "sort (map fingerprintEntry ds) = x # xs"
      by (cases "sort (map fingerprintEntry ds)") auto
    then have "x \<in> set (sort (map fingerprintEntry ds))"
      by simp
    then have "x \<noteq> []"
      using fingerprintEntry_not_Nil by auto
    then show False
      using fp eq join_not_Nil by (simp add: fingerprint_def)
  qed
next
  assume "ds = []"
  then show "fingerprint ds = []"
    by (simp add: fingerprint_def)
qed

subsection \<open>One pass of the record loop\<close>

lemma length_updateFirst: "length (updateFirst P f xs) = length xs"
  by (induction xs) simp_all

lemma updateFirst_nth:
  "i < length xs \<Longrightarrow>
     updateFirst P f xs ! i = (if P (xs ! i) \<and> (\<forall>j<i. \<not> P (xs ! j)) then f (xs ! i) else xs ! i)"
proof (induction xs arbitrary: i)
  case Nil
  then show ?case by simp
next
  case (Cons x xs)
  show ?case
  proof (cases i)
    case 0
    then show ?thesis by simp
  next
    case (Suc k)
    with Cons.prems have k: "k < length xs" by simp
    show ?thesis
    proof (cases "P x")
      case True
      then show ?thesis using Suc by auto
    next
      case False
      have "(\<forall>j<Suc k. \<not> P ((x # xs) ! j)) \<longleftrightarrow> (\<forall>j<k. \<not> P (xs ! j))"
        using False by (auto simp: less_Suc_eq_0_disj)
      then show ?thesis
        using False Suc Cons.IH [OF k] by auto
    qed
  qed
qed

lemma length_recordStep:
  "length (recordStep tick d recs)
     = (if list_ex (\<lambda>r. recordKey r = dragonKey d) recs then length recs else length recs + 1)"
proof (cases "find (\<lambda>r. recordKey r = dragonKey d) recs")
  case None
  then have "\<not> list_ex (\<lambda>r. recordKey r = dragonKey d) recs"
    by (simp add: find_None_iff_list_ex)
  then show ?thesis
    using None by (simp add: recordStep_def Let_def)
next
  case (Some e)
  then have "list_ex (\<lambda>r. recordKey r = dragonKey d) recs"
    using find_None_iff_list_ex [of "\<lambda>r. recordKey r = dragonKey d" recs] by simp
  then show ?thesis
    using Some by (simp add: recordStep_def Let_def length_updateFirst)
qed

lemma recordStep_new:
  assumes "\<not> list_ex (\<lambda>r. recordKey r = dragonKey d) recs"
  shows "recordStep tick d recs = recs @ [newRecord tick d]"
proof -
  have "find (\<lambda>r. recordKey r = dragonKey d) recs = None"
    using assms by (simp add: find_None_iff_list_ex)
  then show ?thesis
    by (simp add: recordStep_def Let_def)
qed

lemma recordStep_nth:
  assumes "i < length recs"
  shows "recordStep tick d recs ! i
     = (if recordKey (recs ! i) = dragonKey d
           \<and> (\<forall>j<i. recordKey (recs ! j) \<noteq> dragonKey d)
           \<and> r_streakLength (recs ! i) < d_count d
        then (recs ! i)\<lparr>r_streakLength := d_count d, r_timestamp := now_first tick\<rparr>
        else recs ! i)"
proof (cases "find (\<lambda>r. recordKey r = dragonKey d) recs")
  case None
  then have "recordKey (recs ! i) \<noteq> dragonKey d"
    using assms by (auto simp: find_None_iff)
  then show ?thesis
    using None assms by (simp add: recordStep_def Let_def nth_append)
next
  case (Some e)
  then obtain k where k: "k < length recs" "recordKey (recs ! k) = dragonKey d" "e = recs ! k"
    "\<forall>j<k. recordKey (recs ! j) \<noteq> dragonKey d"
    by (auto simp: find_Some_iff)
  have first: "recordKey (recs ! i) = dragonKey d \<and> (\<forall>j<i. recordKey (recs ! j) \<noteq> dragonKey d)
      \<longleftrightarrow> i = k"
    using k assms by (metis linorder_neqE_nat)
  have cond_k: "recordKey (recs ! k) = dragonKey d \<and> (\<forall>j<k. recordKey (recs ! j) \<noteq> dragonKey d)"
    using k by simp
  show ?thesis
  proof (cases "i = k")
    case True
    show ?thesis
      unfolding True using Some k(1,3) cond_k
      by (simp add: recordStep_def Let_def updateFirst_nth)
  next
    case False
    with first have nc: "\<not> (recordKey (recs ! i) = dragonKey d
        \<and> (\<forall>j<i. recordKey (recs ! j) \<noteq> dragonKey d))"
      by simp
    show ?thesis
      using Some assms nc by (auto simp add: recordStep_def Let_def updateFirst_nth)
  qed
qed

lemma recordKey_update:
  "recordKey (r\<lparr>r_streakLength := n, r_timestamp := t\<rparr>) = recordKey r"
  by (simp add: recordKey_def)

lemma recordsGrow_refl: "recordsGrow recs recs"
  by (simp add: recordsGrow_def)

lemma recordsGrow_trans:
  assumes "recordsGrow a b" and "recordsGrow b c"
  shows "recordsGrow a c"
proof -
  have len: "length a \<le> length b" "length b \<le> length c"
    using assms by (simp_all add: recordsGrow_def)
  {
    fix i assume i: "i < length a"
    then have ib: "i < length b" using len by simp
    from assms(1) i have ab: "recordKey (b ! i) = recordKey (a ! i)" "r_id (b ! i) = r_id (a ! i)"
      "r_streakLength (a ! i) \<le> r_streakLength (b ! i)"
      "r_streakLength (b ! i) = r_streakLength (a ! i) \<longrightarrow> b ! i = a ! i"
      by (simp_all add: recordsGrow_def)
    from assms(2) ib have bc: "recordKey (c ! i) = recordKey (b ! i)" "r_id (c ! i) = r_id (b ! i)"
      "r_streakLength (b ! i) \<le> r_streakLength (c ! i)"
      "r_streakLength (c ! i) = r_streakLength (b ! i) \<longrightarrow> c ! i = b ! i"
      by (simp_all add: recordsGrow_def)
    have "recordKey (c ! i) = recordKey (a ! i) \<and> r_id (c ! i) = r_id (a ! i) \<and>
         r_streakLength (a ! i) \<le> r_streakLength (c ! i) \<and>
         (r_streakLength (c ! i) = r_streakLength (a ! i) \<longrightarrow> c ! i = a ! i)"
      using ab bc by auto
  }
  then show ?thesis
    using len by (simp add: recordsGrow_def)
qed

lemma recordsGrow_step: "recordsGrow recs (recordStep tick d recs)"
  by (simp add: recordsGrow_def length_recordStep recordStep_nth recordKey_update)

lemma recordsGrow_loop: "recordsGrow recs (recordLoop clock i ds recs)"
proof (induction ds arbitrary: i recs)
  case Nil
  then show ?case by (simp add: recordsGrow_refl)
next
  case (Cons d ds)
  show ?case
    using recordsGrow_trans [OF recordsGrow_step Cons.IH] by simp
qed

lemma recordsGrow_effect: "recordsGrow (dragonRecords st) (dragonRecords (trackEffect clock dragons st))"
  by (simp add: trackEffect_def Let_def recordsGrow_refl recordsGrow_loop)

lemma recordsGrow_many: "recordsGrow (dragonRecords st) (dragonRecords (trackMany runs st))"
proof (induction runs arbitrary: st)
  case Nil
  then show ?case by (simp add: recordsGrow_refl)
next
  case (Cons run runs)
  obtain clock dragons where run: "run = (clock, dragons)" by (cases run)
  show ?case
    using recordsGrow_trans [OF recordsGrow_effect Cons.IH] run by simp
qed

lemma trackEffect_twice:
  "trackEffect clock2 dragons (trackEffect clock1 dragons st) = trackEffect clock1 dragons st"
  by (simp add: trackEffect_def Let_def)

lemma recordKey_newRecord: "recordKey (newRecord tick d) = dragonKey d"
  by (simp add: recordKey_def dragonKey_def newRecord_def)

lemma keys_recordStep:
  "recordKey ` set (recordStep tick d recs) = insert (dragonKey d) (recordKey ` set recs)"
proof (cases "list_ex (\<lambda>r. recordKey r = dragonKey d) recs")
  case False
  then show ?thesis
    by (simp add: recordStep_new recordKey_newRecord)
next
  case True
  then have len: "length (recordStep tick d recs) = length recs"
    by (simp add: length_recordStep)
  have "map recordKey (recordStep tick d recs) = map recordKey recs"
    by (rule nth_equalityI) (simp_all add: len recordStep_nth recordKey_update)
  then have "recordKey ` set (recordStep tick d recs) = recordKey ` set recs"
    by (metis set_map)
  moreover have "dragonKey d \<in> recordKey ` set recs"
    using True by (force simp: list_ex_iff image_iff)
  ultimately show ?thesis by auto
qed

lemma keys_recordLoop:
  "recordKey ` set (recordLoop clock i ds recs) = dragonKey ` set ds \<union> recordKey ` set recs"
  by (induction ds arbitrary: i recs) (auto simp: keys_recordStep)

subsection \<open>C6: the same observations twice\<close>

text \<open>
  C6. A second run of the tracking effect on the same aggregator result leaves the whole
  state as the first run left it: no record is made or changed and no save is
  dispatched, because the fingerprint is the one the first run stored.
\<close>

theorem tracker_idempotent:
  "trackEffect clock2 dragons (trackEffect clock1 dragons st) = trackEffect clock1 dragons st
   \<and> (isTracking st \<and> isInitializedRef st \<longrightarrow>
        prevDragonsRef (trackEffect clock1 dragons st) = fingerprint (allDragons dragons))"
  by (simp add: trackEffect_def Let_def)

theorem tracker_idempotent_witness:
  "isTracking trackingOn \<and> isInitializedRef trackingOn
   \<and> map r_streakLength (dragonRecords (trackEffect (tickAt 1000) (oddRun 4) trackingOn)) = [4]
   \<and> length (saveCalls (trackEffect (tickAt 1000) (oddRun 4) trackingOn)) = 2
   \<and> prevDragonsRef (trackEffect (tickAt 1000) (oddRun 4) trackingOn) = ''r1|parity|trend||ODD|4''
   \<and> trackEffect (tickAt 2000) (oddRun 4) (trackEffect (tickAt 1000) (oddRun 4) trackingOn)
       = trackEffect (tickAt 1000) (oddRun 4) trackingOn"
proof -
  have on: "isTracking trackingOn \<and> isInitializedRef trackingOn"
    by (simp add: trackingOn_def handleStartTracking_def loadEffect_def initialTracker_def)
  have recs: "map r_streakLength (dragonRecords (trackEffect (tickAt 1000) (oddRun 4) trackingOn)) = [4]"
    by code_simp
  have saves: "length (saveCalls (trackEffect (tickAt 1000) (oddRun 4) trackingOn)) = 2"
    by code_simp
  have fp: "fingerprint (allDragons (oddRun 4)) = ''r1|parity|trend||ODD|4''"
    by code_simp
  from tracker_idempotent [of "tickAt 2000" "oddRun 4" "tickAt 1000" trackingOn] on recs saves fp
  show ?thesis by simp
qed

subsection \<open>C7: the length of a record never goes down\<close>

text \<open>
  C7. Over any run of tracker updates the record list only continues: every record
  keeps its place, key and id, and its length never goes down. In one pass of the
  loop, the first record with the observation's key takes the observed length and a new
  timestamp exactly when the observed length is strictly larger, and every other record
  stays as it is; a record is appended, with the observed length, exactly when no
  record has the key.
\<close>

theorem max_streak_monotone:
  "recordsGrow (dragonRecords st) (dragonRecords (trackMany runs st))
   \<and> (\<forall>i < length recs.
         recordStep tick d recs ! i
           = (if recordKey (recs ! i) = dragonKey d
                 \<and> (\<forall>j<i. recordKey (recs ! j) \<noteq> dragonKey d)
                 \<and> r_streakLength (recs ! i) < d_count d
              then (recs ! i)\<lparr>r_streakLength := d_count d, r_timestamp := now_first tick\<rparr>
              else recs ! i))
   \<and> length (recordStep tick d recs)
       = (if list_ex (\<lambda>r. recordKey r = dragonKey d) recs then length recs else length recs + 1)
   \<and> (\<not> list_ex (\<lambda>r. recordKey r = dragonKey d) recs \<longrightarrow>
         recordStep tick d recs = recs @ [newRecord tick d])
   \<and> r_streakLength (newRecord tick d) = d_count d
   \<and> recordKey (newRecord tick d) = dragonKey d"
proof (intro conjI allI impI)
  show "recordsGrow (dragonRecords st) (dragonRecords (trackMany runs st))"
    by (rule recordsGrow_many)
next
  fix i assume "i < length recs"
  then show "recordStep tick d recs ! i
           = (if recordKey (recs ! i) = dragonKey d
                 \<and> (\<forall>j<i. recordKey (recs ! j) \<noteq> dragonKey d)
                 \<and> r_streakLength (recs ! i) < d_count d
              then (recs ! i)\<lparr>r_streakLength := d_count d, r_timestamp := now_first tick\<rparr>
              else recs ! i)"
    by (rule recordStep_nth)
next
  show "length (recordStep tick d recs)
       = (if list_ex (\<lambda>r. recordKey r = dragonKey d) recs then length recs else length recs + 1)"
    by (rule length_recordStep)
next
  assume "\<not> list_ex (\<lambda>r. recordKey r = dragonKey d) recs"
  then show "recordStep tick d recs = recs @ [newRecord tick d]"
    by (rule recordStep_new)
next
  show "r_streakLength (newRecord tick d) = d_count d"
    by (simp add: newRecord_def)
next
  show "recordKey (newRecord tick d) = dragonKey d"
    by (rule recordKey_newRecord)
qed

theorem max_streak_monotone_witness:
  "map r_streakLength (dragonRecords (trackEffect (tickAt 1000) (oddRun 3) trackingOn)) = [3]
   \<and> map r_streakLength
        (dragonRecords (trackMany [(tickAt 2000, oddRun 5), (tickAt 3000, oddRun 4)]
                          (trackEffect (tickAt 1000) (oddRun 3) trackingOn))) = [5]
   \<and> map r_timestamp
        (dragonRecords (trackMany [(tickAt 2000, oddRun 5), (tickAt 3000, oddRun 4)]
                          (trackEffect (tickAt 1000) (oddRun 3) trackingOn))) = [2000]
   \<and> recordsGrow (dragonRecords (trackEffect (tickAt 1000) (oddRun 3) trackingOn))
        (dragonRecords (trackMany [(tickAt 2000, oddRun 5), (tickAt 3000, oddRun 4)]
                          (trackEffect (tickAt 1000) (oddRun 3) trackingOn)))"
proof -
  have a: "map r_streakLength (dragonRecords (trackEffect (tickAt 1000) (oddRun 3) trackingOn)) = [3]"
    by code_simp
  have b: "map r_streakLength
        (dragonRecords (trackMany [(tickAt 2000, oddRun 5), (tickAt 3000, oddRun 4)]
                          (trackEffect (tickAt 1000) (oddRun 3) trackingOn))) = [5]"
    by code_simp
  have c: "map r_timestamp
        (dragonRecords (trackMany [(tickAt 2000, oddRun 5), (tickAt 3000, oddRun 4)]
                          (trackEffect (tickAt 1000) (oddRun 3) trackingOn))) = [2000]"
    by code_simp
  from max_streak_monotone [of "trackEffect (tickAt 1000) (oddRun 3) trackingOn"
      "[(tickAt 2000, oddRun 5), (tickAt 3000, oddRun 4)]"] a b c
  show ?thesis by simp
qed

subsection \<open>C8: clearing\<close>

text \<open>
  C8. Once the user has confirmed, the clear handler empties the record list and puts
  the stored fingerprint back to its initial value, whatever the remote clear resolves
  to. While tracking, the next run of the effect then builds its records from the empty
  list: they are the records of the current observations and of nothing else.
\<close>

theorem clear_then_fresh:
  "dragonRecords (handleClearStats True remoteOk st) = []
   \<and> prevDragonsRef (handleClearStats True remoteOk st) = prevDragonsRef initialTracker
   \<and> handleClearStats True remoteOk st = handleClearStats True (\<not> remoteOk) st
   \<and> (isTracking st \<and> isInitializedRef st \<longrightarrow>
        dragonRecords (trackEffect clock dragons (handleClearStats True remoteOk st))
          = recordLoop clock 0 (allDragons dragons) []
        \<and> recordKey ` set (dragonRecords (trackEffect clock dragons
                                            (handleClearStats True remoteOk st)))
          = dragonKey ` set (allDragons dragons))"
proof -
  have fresh: "isTracking st \<and> isInitializedRef st \<Longrightarrow>
        dragonRecords (trackEffect clock dragons (handleClearStats True remoteOk st))
          = recordLoop clock 0 (allDragons dragons) []"
  proof (cases "allDragons dragons = []")
    case True
    assume "isTracking st \<and> isInitializedRef st"
    with True show ?thesis
      by (simp add: trackEffect_def handleClearStats_def Let_def fingerprint_Nil_iff)
  next
    case False
    assume "isTracking st \<and> isInitializedRef st"
    with False show ?thesis
      by (simp add: trackEffect_def handleClearStats_def Let_def fingerprint_Nil_iff)
  qed
  show ?thesis
    using fresh
    by (simp add: handleClearStats_def initialTracker_def keys_recordLoop)
qed

theorem clear_then_fresh_witness:
  "isTracking trackingOn \<and> isInitializedRef trackingOn
   \<and> map r_id (dragonRecords (trackEffect (tickAt 1000) (oddRun 4) trackingOn)) = [''1000-k3x9qa'']
   \<and> dragonRecords (handleClearStats True False (trackEffect (tickAt 1000) (oddRun 4) trackingOn)) = []
   \<and> map r_id (dragonRecords
        (trackEffect (tickAt 2000) (oddRun 4)
           (handleClearStats True False (trackEffect (tickAt 1000) (oddRun 4) trackingOn))))
       = [''2000-k3x9qa'']
   \<and> dragonRecords
        (trackEffect (tickAt 2000) (oddRun 4)
           (handleClearStats True False (trackEffect (tickAt 1000) (oddRun 4) trackingOn)))
       = recordLoop (tickAt 2000) 0 (allDragons (oddRun 4)) []"
proof -
  have on: "isTracking (trackEffect (tickAt 1000) (oddRun 4) trackingOn)
      \<and> isInitializedRef (trackEffect (tickAt 1000) (oddRun 4) trackingOn)"
    by code_simp
  have on0: "isTracking trackingOn \<and> isInitializedRef trackingOn"
    by code_simp
  have a: "map r_id (dragonRecords (trackEffect (tickAt 1000) (oddRun 4) trackingOn)) = [''1000-k3x9qa'']"
    by code_simp
  have b: "map r_id (recordLoop (tickAt 2000) 0 (allDragons (oddRun 4)) []) = [''2000-k3x9qa'']"
    by code_simp
  from clear_then_fresh [of False "trackEffect (tickAt 1000) (oddRun 4) trackingOn"
      "tickAt 2000" "oddRun 4"] on
  have c: "dragonRecords (handleClearStats True False
              (trackEffect (tickAt 1000) (oddRun 4) trackingOn)) = []"
    and f: "dragonRecords
        (trackEffect (tickAt 2000) (oddRun 4)
           (handleClearStats True False (trackEffect (tickAt 1000) (oddRun 4) trackingOn)))
       = recordLoop (tickAt 2000) 0 (allDragons (oddRun 4)) []"
    by blast+
  show ?thesis
    using on0 a b c f by simp
qed

subsection \<open>C9: the defaults\<close>

lemma ruleInfos_threshold: "d \<in> set (ruleInfos allBlocks rule) \<Longrightarrow> d_threshold d = threshold rule"
  by (auto simp: ruleInfos_def trendInfos_def rowInfos_def trendInfo_def beadInfo_def
      split: list.splits)

text \<open>
  C9. A rule that omits the start block or sets it to 0 gets start offset 0; one that
  omits the bead rows or sets them to 0 gets 6 rows; one that omits the threshold or
  sets it to 0 gets threshold 3. The rule interface does not declare the threshold
  property, so every rule that has exactly the declared properties gets threshold 3,
  and so does every observation made from it.
\<close>

theorem rule_defaults:
  "(startBlock rule = None \<or> startBlock rule = Some 0 \<longrightarrow> epoch rule = 0)
   \<and> (beadRows rule = None \<or> beadRows rule = Some 0 \<longrightarrow> rows rule = 6)
   \<and> (dragonThreshold rule = None \<or> dragonThreshold rule = Some 0 \<longrightarrow> threshold rule = 3)
   \<and> (well_typed_rule rule \<longrightarrow>
        threshold rule = 3 \<and> (\<forall>d \<in> set (ruleInfos allBlocks rule). d_threshold d = 3))"
  by (auto simp: epoch_def rows_def threshold_def well_typed_rule_def ruleInfos_threshold)

theorem rule_defaults_witness:
  "epoch \<lparr>rule_id = ''r1'', label = ''one'', rule_value = 1, startBlock = None, trendRows = 6,
          beadRows = Some 0, dragonThreshold = None\<rparr> = 0
   \<and> rows \<lparr>rule_id = ''r1'', label = ''one'', rule_value = 1, startBlock = None, trendRows = 6,
           beadRows = Some 0, dragonThreshold = None\<rparr> = 6
   \<and> threshold \<lparr>rule_id = ''r1'', label = ''one'', rule_value = 1, startBlock = None,
           trendRows = 6, beadRows = Some 0, dragonThreshold = None\<rparr> = 3
   \<and> well_typed_rule \<lparr>rule_id = ''r2'', label = ''two'', rule_value = 2, startBlock = Some 0,
           trendRows = 6, beadRows = Some 4, dragonThreshold = None\<rparr>
   \<and> threshold \<lparr>rule_id = ''r2'', label = ''two'', rule_value = 2, startBlock = Some 0,
           trendRows = 6, beadRows = Some 4, dragonThreshold = None\<rparr> = 3"
  using rule_defaults [of "\<lparr>rule_id = ''r1'', label = ''one'', rule_value = 1, startBlock = None,
      trendRows = 6, beadRows = Some 0, dragonThreshold = None\<rparr>"]
    rule_defaults [of "\<lparr>rule_id = ''r2'', label = ''two'', rule_value = 2, startBlock = Some 0,
      trendRows = 6, beadRows = Some 4, dragonThreshold = None\<rparr>"]
  by (simp add: well_typed_rule_def)

subsection \<open>C10: row indices\<close>

lemma show_nat_not_Nil: "show_nat n \<noteq> []"
  by (subst show_nat.simps) simp

lemma show_int_not_Nil: "show_int i \<noteq> []"
  by (simp add: show_int_def show_nat_not_Nil)

lemma rowInfos_rowId:
  "d \<in> set (rowInfos rule flt r) \<Longrightarrow>
     d_mode d = M_bead \<and> d_rowId d = Some (r + 1) \<and> d_ruleId d = rule_id rule
     \<and> rowItems rule flt r \<noteq> []"
  by (auto simp: rowInfos_def beadInfo_def split: list.splits)

lemma trendInfos_rowId:
  "d \<in> set (trendInfos rule flt) \<Longrightarrow>
     d_mode d = M_trend \<and> d_rowId d = None \<and> d_ruleId d = rule_id rule"
  by (auto simp: trendInfos_def trendInfo_def split: list.splits)

lemma ruleInfos_cases:
  assumes "d \<in> set (ruleInfos allBlocks rule)"
  shows "d_ruleId d = rule_id rule \<and>
     (if d_mode d = M_trend then d_rowId d = None
      else \<exists>r. 0 \<le> r \<and> r < rows rule \<and> d_rowId d = Some (r + 1)
             \<and> rowItems rule (filtered allBlocks rule) r \<noteq> [])"
proof -
  from assms consider "d \<in> set (trendInfos rule (filtered allBlocks rule))"
    | r where "r \<in> set [0 .. rows rule - 1]" "d \<in> set (rowInfos rule (filtered allBlocks rule) r)"
    by (auto simp: ruleInfos_def)
  then show ?thesis
  proof cases
    case 1
    then show ?thesis using trendInfos_rowId by auto
  next
    case 2
    from rowInfos_rowId [OF 2(2)] 2(1) show ?thesis by auto
  qed
qed

lemma allInfos_cases:
  assumes "d \<in> set (allInfos allBlocks rules)"
  shows "\<exists>rule \<in> set rules. d_ruleId d = rule_id rule \<and>
     (if d_mode d = M_trend then d_rowId d = None
      else \<exists>r. 0 \<le> r \<and> r < rows rule \<and> d_rowId d = Some (r + 1)
             \<and> rowItems rule (filtered allBlocks rule) r \<noteq> [])"
  using assms ruleInfos_cases by (fastforce simp: allInfos_def)

text \<open>
  C10. The observations of row \<open>r\<close> carry \<open>rowId = r + 1\<close>. In the aggregator's result
  every row-mode observation has a row index \<open>k\<close> with \<open>1 \<le> k \<le> N\<close> for the row count
  \<open>N\<close> of its rule, never 0, and its row \<open>k - 1\<close> has a block; every sequence-mode
  observation has no row index and puts the empty string in its place in the record
  key and in the fingerprint entry. A watched pattern matches a row observation on
  \<open>rowId = r + 1\<close>.
\<close>

theorem row_ids:
  "(\<forall>d \<in> set (rowInfos rule flt r).
       d_mode d = M_bead \<and> d_rowId d = Some (r + 1) \<and> rowItems rule flt r \<noteq> [])
   \<and> (\<forall>out. useMemo af fps allBlocks rules = Some out \<longrightarrow>
        (\<forall>d \<in> set (beadRowDragons out).
           d_mode d = M_bead \<and>
           (\<exists>rule \<in> set rules. \<exists>k. d_ruleId d = rule_id rule \<and> d_rowId d = Some k
               \<and> 1 \<le> k \<and> k \<le> rows rule \<and> k \<noteq> 0
               \<and> rowItems rule (filtered allBlocks rule) (k - 1) \<noteq> []
               \<and> rowIdStr (d_rowId d) = show_int k)) \<and>
        (\<forall>d \<in> set (trendDragons out).
           d_mode d = M_trend \<and> d_rowId d = None \<and> rowIdStr (d_rowId d) = []
           \<and> dragonKey d
               = d_ruleId d @ ''|'' @ typeName (d_type d) @ ''|trend||'' @ rawName (d_rawType d)
           \<and> fingerprintEntry d
               = d_ruleId d @ ''|'' @ typeName (d_type d) @ ''|trend||'' @ rawName (d_rawType d)
                   @ ''|'' @ show_int (d_count d)))
   \<and> watchResults (addBeadDragon af fps rule nh r ty s res)
       = watchResults res
         @ (if list_ex (\<lambda>fp. fp_ruleId fp = rule_id rule \<and> fp_type fp = ty \<and> fp_mode fp = M_bead
                              \<and> fp_rowId fp = Some (r + 1)) fps
               \<and> matchesFilter af (beadInfo rule nh r ty s)
            then [beadInfo rule nh r ty s] else [])"
proof (intro conjI allI impI ballI)
  fix d assume "d \<in> set (rowInfos rule flt r)"
  from rowInfos_rowId [OF this]
  show "d_mode d = M_bead" and "d_rowId d = Some (r + 1)" and "rowItems rule flt r \<noteq> []"
    by simp_all
next
  fix out d
  assume out: "useMemo af fps allBlocks rules = Some out" and d: "d \<in> set (beadRowDragons out)"
  from out d have m: "d_mode d = M_bead" and "d \<in> set (allInfos allBlocks rules)"
    by (auto simp: useMemo_eq sortByCount_def)
  from allInfos_cases [OF this(2)] m
  obtain rule r where "rule \<in> set rules" "d_ruleId d = rule_id rule" "0 \<le> r" "r < rows rule"
    "d_rowId d = Some (r + 1)" "rowItems rule (filtered allBlocks rule) r \<noteq> []"
    by auto
  then have "d_ruleId d = rule_id rule \<and> d_rowId d = Some (r + 1)
               \<and> 1 \<le> r + 1 \<and> r + 1 \<le> rows rule \<and> r + 1 \<noteq> 0
               \<and> rowItems rule (filtered allBlocks rule) (r + 1 - 1) \<noteq> []
               \<and> rowIdStr (d_rowId d) = show_int (r + 1)"
    by simp
  with \<open>rule \<in> set rules\<close>
  show "\<exists>rule \<in> set rules. \<exists>k. d_ruleId d = rule_id rule \<and> d_rowId d = Some k
               \<and> 1 \<le> k \<and> k \<le> rows rule \<and> k \<noteq> 0
               \<and> rowItems rule (filtered allBlocks rule) (k - 1) \<noteq> []
               \<and> rowIdStr (d_rowId d) = show_int k"
    by blast
  from m show "d_mode d = M_bead" .
next
  fix out d
  assume out: "useMemo af fps allBlocks rules = Some out" and d: "d \<in> set (trendDragons out)"
  from out d have m: "d_mode d = M_trend" and "d \<in> set (allInfos allBlocks rules)"
    by (auto simp: useMemo_eq sortByCount_def)
  from allInfos_cases [OF this(2)] m have n: "d_rowId d = None"
    by auto
  from m show "d_mode d = M_trend" .
  from n show "d_rowId d = None" .
  from n show "rowIdStr (d_rowId d) = []" by simp
  from n m show "dragonKey d
               = d_ruleId d @ ''|'' @ typeName (d_type d) @ ''|trend||'' @ rawName (d_rawType d)"
    by (simp add: dragonKey_def)
  from n m show "fingerprintEntry d
               = d_ruleId d @ ''|'' @ typeName (d_type d) @ ''|trend||'' @ rawName (d_rawType d)
                   @ ''|'' @ show_int (d_count d)"
    by (simp add: fingerprintEntry_def)
next
  show "watchResults (addBeadDragon af fps rule nh r ty s res)
       = watchResults res
         @ (if list_ex (\<lambda>fp. fp_ruleId fp = rule_id rule \<and> fp_type fp = ty \<and> fp_mode fp = M_bead
                              \<and> fp_rowId fp = Some (r + 1)) fps
               \<and> matchesFilter af (beadInfo rule nh r ty s)
            then [beadInfo rule nh r ty s] else [])"
    by (simp add: watchResults_addBeadDragon matchesFilter_def beadInfo_def)
qed

theorem row_ids_witness:
  "rowInfos ruleOneRow (filtered evenBlocks ruleOneRow) 0 \<noteq> []
   \<and> list_all (\<lambda>d. d_mode d = M_bead \<and> d_rowId d = Some 1)
        (rowInfos ruleOneRow (filtered evenBlocks ruleOneRow) 0)
   \<and> map_option (\<lambda>out. map d_rowId (beadRowDragons out))
        (useMemo Filter_ALL [] evenBlocks [ruleOneRow]) = Some [Some 1]
   \<and> map_option (\<lambda>out. map dragonKey (beadRowDragons out))
        (useMemo Filter_ALL [] evenBlocks [ruleOneRow]) = Some [''r1|parity|bead|1|EVEN'']
   \<and> map_option (\<lambda>out. map dragonKey (trendDragons out))
        (useMemo Filter_ALL [] evenBlocks [ruleOneRow]) = Some [''r1|parity|trend||EVEN'']"
proof -
  have ne: "rowInfos ruleOneRow (filtered evenBlocks ruleOneRow) 0 \<noteq> []"
    by code_simp
  have a: "map_option (\<lambda>out. map d_rowId (beadRowDragons out))
        (useMemo Filter_ALL [] evenBlocks [ruleOneRow]) = Some [Some 1]"
    by code_simp
  have b: "map_option (\<lambda>out. map dragonKey (beadRowDragons out))
        (useMemo Filter_ALL [] evenBlocks [ruleOneRow]) = Some [''r1|parity|bead|1|EVEN'']"
    by code_simp
  have c: "map_option (\<lambda>out. map dragonKey (trendDragons out))
        (useMemo Filter_ALL [] evenBlocks [ruleOneRow]) = Some [''r1|parity|trend||EVEN'']"
    by code_simp
  from row_ids [of ruleOneRow "filtered evenBlocks ruleOneRow" 0]
  have "\<forall>d \<in> set (rowInfos ruleOneRow (filtered evenBlocks ruleOneRow) 0).
          d_mode d = M_bead \<and> d_rowId d = Some (0 + 1)"
    by blast
  then have "list_all (\<lambda>d. d_mode d = M_bead \<and> d_rowId d = Some 1)
        (rowInfos ruleOneRow (filtered evenBlocks ruleOneRow) 0)"
    by (simp add: list_all_iff)
  with ne a b c show ?thesis by simp
qed

end
